theory Spec2Isabelle
  imports Complex_Main
begin

section \<open>Values shared by the gateway's modules\<close>

text \<open>
  A parsed JSON document, as \<open>response.json()\<close> hands it to the handlers: Python's
  \<open>None\<close>, \<open>bool\<close>, number, \<open>str\<close>, \<open>list\<close> and \<open>dict\<close>. A dict is an association
  list read by its first matching key; numbers are the finite values, kept exactly.
\<close>

datatype json =
    JNull
  | JBool bool
  | JNum rat
  | JStr string
  | JArr "json list"
  | JObj "(string \<times> json) list"

type_synonym pydict = "(string \<times> json) list"

text \<open>\<open>d.get(k, default)\<close> on a dict.\<close>

definition dict_get :: "pydict \<Rightarrow> string \<Rightarrow> json \<Rightarrow> json" where
  "dict_get d k dflt = (case map_of d k of None \<Rightarrow> dflt | Some v \<Rightarrow> v)"

text \<open>Python's truth value of a parsed JSON value (\<open>not x\<close>, \<open>x or y\<close>).\<close>

fun truthy :: "json \<Rightarrow> bool" where
  "truthy JNull = False"
| "truthy (JBool b) = b"
| "truthy (JNum r) = (r \<noteq> 0)"
| "truthy (JStr s) = (s \<noteq> [])"
| "truthy (JArr xs) = (xs \<noteq> [])"
| "truthy (JObj kvs) = (kvs \<noteq> [])"

text \<open>
  An f-string is kept as the list of its literal and interpolated parts; how Python
  prints a parsed JSON value, a float or an httpx status error is the interpreter's and
  the library's business and is not spelled out.
\<close>

datatype piece =
    Lit string
  | Str_json json
  | Str_float rat
  | Str_status nat
  | Repr string

type_synonym msg = "piece list"

text \<open>
  The exceptions that travel through the handlers. \<open>TimeoutException\<close> and
  \<open>RequestError\<close> are httpx's transport failures (the first a subclass of the second in
  httpx; here \<open>RequestError\<close> stands for every other one, such as a refused connection),
  \<open>HTTPStatusError\<close> is what \<open>raise_for_status\<close> raises and carries the response's
  status, \<open>HTTPException\<close> is FastAPI's, turned by the framework into a response with
  that status and detail.
\<close>

datatype exn =
    HTTPException nat msg
  | HTTPStatusError nat
  | TimeoutException string
  | RequestError string
  | JSONDecodeError
  | AttributeError
  | ValidationError
  | MCPClientError msg
  | ValueError msg
  | ResponseValidationError
  | OtherException string

fun is_RequestError :: "exn \<Rightarrow> bool" where
  "is_RequestError (TimeoutException m) = True"
| "is_RequestError (RequestError m) = True"
| "is_RequestError e = False"

subsection \<open>The outbound HTTP call\<close>

datatype http_method = GET | POST

record request =
  req_method :: http_method
  req_url :: string
  req_params :: "(string \<times> string) list"
  req_json :: "json option"
  req_timeout :: "rat option"

text \<open>
  A response as the handlers read it: the status code and the body as \<open>response.json()\<close>
  parses it, \<open>None\<close> when the body is not JSON (the call then raises).
\<close>

record response =
  status_code :: nat
  body_json :: "json option"

text \<open>
  The network is a function from the request sent to what \<open>client.get\<close> or
  \<open>client.post\<close> does: it returns a response or raises.
\<close>

type_synonym network = "request \<Rightarrow> exn + response"

text \<open>The network that does the same thing whatever is asked of it.\<close>

definition always :: "exn + response \<Rightarrow> network" where
  "always out q = out"

definition is_success :: "response \<Rightarrow> bool" where
  "is_success r = (200 \<le> status_code r \<and> status_code r \<le> 299)"

definition raise_for_status :: "response \<Rightarrow> exn + response" where
  "raise_for_status r = (if is_success r then Inr r else Inl (HTTPStatusError (status_code r)))"

definition response_json :: "response \<Rightarrow> exn + json" where
  "response_json r = (case body_json r of None \<Rightarrow> Inl JSONDecodeError | Some j \<Rightarrow> Inr j)"

text \<open>
  A route declared \<open>-> dict\<close> has the value its handler returns checked by the
  framework before anything is sent: a dict goes out as it is, any other value raises
  \<open>ResponseValidationError\<close>. What the handler raised is not touched.
\<close>

fun returned_as_dict :: "exn + json \<Rightarrow> exn + json" where
  "returned_as_dict (Inr (JObj d)) = Inr (JObj d)"
| "returned_as_dict (Inr j) = Inl ResponseValidationError"
| "returned_as_dict (Inl e) = Inl e"

text \<open>
  What the caller of the gateway sees of a route's outcome, the returned value having
  passed the check of the route's declared return type: 200 for a value that is sent,
  the status of an \<open>HTTPException\<close>, and the framework's 500 for any other exception
  that escapes.
\<close>

fun status_to_caller :: "exn + 'a \<Rightarrow> nat" where
  "status_to_caller (Inr v) = 200"
| "status_to_caller (Inl (HTTPException s d)) = s"
| "status_to_caller (Inl e) = 500"

subsection \<open>Settings (config.py)\<close>

record settings =
  mcp_base_url :: string
  mcp_timeout :: rat
  google_client_id :: string
  google_redirect_uri :: string
  google_auth_url :: string
  youtube_scopes :: string

text \<open>The defaults of \<open>Settings\<close>, for the fields the routes below read.\<close>

definition Settings_defaults :: settings where
  "Settings_defaults =
     \<lparr> mcp_base_url = ''http://context-hub-mcp:8001'',
       mcp_timeout = 30,
       google_client_id = '''',
       google_redirect_uri = ''http://localhost:3000/auth/youtube/callback'',
       google_auth_url = ''https://accounts.google.com/o/oauth2/v2/auth'',
       youtube_scopes = ''https://www.googleapis.com/auth/youtube.readonly,https://www.googleapis.com/auth/yt-analytics.readonly'' \<rparr>"

definition rstrip :: "char \<Rightarrow> string \<Rightarrow> string" where
  "rstrip c s = rev (dropWhile (\<lambda>x. x = c) (rev s))"

section \<open>Channel routes (api/v1/channel.py)\<close>

definition channel_stats_request :: "settings \<Rightarrow> string \<Rightarrow> string \<Rightarrow> request" where
  "channel_stats_request st user_id period =
     \<lparr> req_method = GET,
       req_url = rstrip CHR ''/'' (mcp_base_url st) @ ''/channels/'' @ user_id @ ''/stats'',
       req_params = [(''period'', period)],
       req_json = None,
       req_timeout = Some (mcp_timeout st) \<rparr>"

text \<open>The body of the \<open>try\<close> block of \<open>get_channel_stats\<close>.\<close>

definition channel_stats_try :: "settings \<Rightarrow> network \<Rightarrow> string \<Rightarrow> string \<Rightarrow> exn + json" where
  "channel_stats_try st net user_id period =
     (case net (channel_stats_request st user_id period) of
        Inl e \<Rightarrow> Inl e
      | Inr r \<Rightarrow>
          if status_code r = 404
          then Inl (HTTPException 404 [Lit ''No connected YouTube channel found''])
          else (case raise_for_status r of
                  Inl e \<Rightarrow> Inl e
                | Inr r' \<Rightarrow> response_json r'))"

text \<open>The handler: the \<open>try\<close> block under its two \<open>except\<close> clauses, in their order.\<close>

definition get_channel_stats :: "settings \<Rightarrow> network \<Rightarrow> string \<Rightarrow> string \<Rightarrow> exn + json" where
  "get_channel_stats st net user_id period =
     (case channel_stats_try st net user_id period of
        Inr j \<Rightarrow> Inr j
      | Inl (HTTPStatusError s) \<Rightarrow> Inl (HTTPException s [Lit ''Failed to fetch channel stats''])
      | Inl e \<Rightarrow>
          if is_RequestError e
          then Inl (HTTPException 503 [Lit ''Could not reach analytics service''])
          else Inl e)"

text \<open>
  The route \<open>GET /api/v1/channel/stats\<close>: the handler is declared \<open>-> dict\<close>, so
  what it returns goes through the framework's check.
\<close>

definition channel_stats_endpoint :: "settings \<Rightarrow> network \<Rightarrow> string \<Rightarrow> string \<Rightarrow> exn + json" where
  "channel_stats_endpoint st net user_id period =
     returned_as_dict (get_channel_stats st net user_id period)"

definition top_video_request :: "settings \<Rightarrow> string \<Rightarrow> string \<Rightarrow> request" where
  "top_video_request st user_id period =
     \<lparr> req_method = GET,
       req_url = rstrip CHR ''/'' (mcp_base_url st) @ ''/analytics/top-video'',
       req_params = [(''user_id'', user_id), (''period'', period)],
       req_json = None,
       req_timeout = Some (mcp_timeout st) \<rparr>"

definition top_video_try :: "settings \<Rightarrow> network \<Rightarrow> string \<Rightarrow> string \<Rightarrow> exn + json" where
  "top_video_try st net user_id period =
     (case net (top_video_request st user_id period) of
        Inl e \<Rightarrow> Inl e
      | Inr r \<Rightarrow>
          (case raise_for_status r of
             Inl e \<Rightarrow> Inl e
           | Inr r' \<Rightarrow> response_json r'))"

definition top_video_fallback :: json where
  "top_video_fallback =
     JObj [(''video_id'', JNull), (''title'', JNull), (''thumbnail_url'', JNull),
           (''views'', JNum 0), (''growth_percentage'', JNum 0)]"

definition get_top_video :: "settings \<Rightarrow> network \<Rightarrow> string \<Rightarrow> string \<Rightarrow> exn + json" where
  "get_top_video st net user_id period =
     (case top_video_try st net user_id period of
        Inr j \<Rightarrow> Inr j
      | Inl e \<Rightarrow> if is_RequestError e then Inr top_video_fallback else Inl e)"

text \<open>The route \<open>GET /api/v1/channel/top-video\<close>, declared \<open>-> dict\<close> as well.\<close>

definition top_video_endpoint :: "settings \<Rightarrow> network \<Rightarrow> string \<Rightarrow> string \<Rightarrow> exn + json" where
  "top_video_endpoint st net user_id period =
     returned_as_dict (get_top_video st net user_id period)"

section \<open>User status route (api/v1/user.py)\<close>

definition user_status_request :: "settings \<Rightarrow> string \<Rightarrow> request" where
  "user_status_request st user_id =
     \<lparr> req_method = GET,
       req_url = rstrip CHR ''/'' (mcp_base_url st) @ ''/api/v1/user/status'',
       req_params = [(''user_id'', user_id)],
       req_json = None,
       req_timeout = Some 5 \<rparr>"

definition user_status_try :: "settings \<Rightarrow> network \<Rightarrow> string \<Rightarrow> exn + json" where
  "user_status_try st net user_id =
     (case net (user_status_request st user_id) of
        Inl e \<Rightarrow> Inl e
      | Inr r \<Rightarrow>
          (case raise_for_status r of
             Inl e \<Rightarrow> Inl e
           | Inr r' \<Rightarrow> response_json r'))"

definition user_status_fallback :: json where
  "user_status_fallback =
     JObj [(''user_plan'', JStr ''free''),
           (''usage'', JObj [(''used'', JNum 0), (''limit'', JNum 3),
                             (''exhausted'', JBool False)])]"

text \<open>\<open>except Exception\<close> catches every exception of the model.\<close>

definition get_user_status :: "settings \<Rightarrow> network \<Rightarrow> string \<Rightarrow> exn + json" where
  "get_user_status st net user_id =
     (case user_status_try st net user_id of
        Inr j \<Rightarrow> Inr j
      | Inl e \<Rightarrow> Inr user_status_fallback)"

section \<open>Schemas (schemas/request.py, schemas/response.py)\<close>

record ExecuteRequest =
  user_id :: string
  channel_id :: string
  message :: string
  metadata :: "pydict option"


record ExecuteResponse =
  answer :: string
  confidence :: rat
  tools_used :: "string list"
  content_type :: "string option"
  tool_outputs :: "pydict option"
  metadata :: "pydict option"
  success :: "bool option"
  error :: "pydict option"

text \<open>Optional values as the JSON they come from.\<close>

fun json_of_opt_str :: "string option \<Rightarrow> json" where
  "json_of_opt_str None = JNull"
| "json_of_opt_str (Some s) = JStr s"

fun json_of_opt_dict :: "pydict option \<Rightarrow> json" where
  "json_of_opt_dict None = JNull"
| "json_of_opt_dict (Some d) = JObj d"

text \<open>A validation library that refuses every bool and string given for a float.\<close>

definition lax_none :: "json \<Rightarrow> rat option" where
  "lax_none j = None"

text \<open>
  What the constructor of \<open>ExecuteResponse\<close> does with the value passed for a field,
  by the field's declared type. A \<open>str\<close> field takes a string and nothing else, an
  \<open>Optional\<close> field also takes \<open>None\<close>, a \<open>Dict[str, Any]\<close> field takes a dict and
  keeps its values, a \<open>List[str]\<close> field takes a list of strings. A \<open>float\<close> field
  takes any number; what the validation library makes of a bool or a string there (its
  lax conversions) is the parameter \<open>lax\<close>, \<open>None\<close> where it refuses. \<open>confidence\<close>
  carries the bounds \<open>ge=0, le=1\<close>.
\<close>

fun validate_str :: "json \<Rightarrow> string option" where
  "validate_str (JStr s) = Some s"
| "validate_str j = None"

fun validate_float :: "(json \<Rightarrow> rat option) \<Rightarrow> json \<Rightarrow> rat option" where
  "validate_float lax (JNum r) = Some r"
| "validate_float lax (JBool b) = lax (JBool b)"
| "validate_float lax (JStr s) = lax (JStr s)"
| "validate_float lax j = None"

definition validate_confidence :: "(json \<Rightarrow> rat option) \<Rightarrow> json \<Rightarrow> rat option" where
  "validate_confidence lax j =
     (case validate_float lax j of
        None \<Rightarrow> None
      | Some r \<Rightarrow> if 0 \<le> r \<and> r \<le> 1 then Some r else None)"

fun validate_list_str :: "json \<Rightarrow> string list option" where
  "validate_list_str (JArr xs) = those (map validate_str xs)"
| "validate_list_str j = None"

fun validate_opt_str :: "json \<Rightarrow> string option option" where
  "validate_opt_str JNull = Some None"
| "validate_opt_str (JStr s) = Some (Some s)"
| "validate_opt_str j = None"

fun validate_opt_dict :: "json \<Rightarrow> pydict option option" where
  "validate_opt_dict JNull = Some None"
| "validate_opt_dict (JObj d) = Some (Some d)"
| "validate_opt_dict j = None"

text \<open>
  \<open>ExecuteResponse(answer=..., confidence=..., ...)\<close>: every argument is validated, and
  one that fails makes the constructor raise. \<open>success\<close> is only ever passed a literal
  or left to its default.
\<close>

definition ExecuteResponse_init ::
  "(json \<Rightarrow> rat option) \<Rightarrow> json \<Rightarrow> json \<Rightarrow> json \<Rightarrow> json \<Rightarrow> json \<Rightarrow> json \<Rightarrow> bool option \<Rightarrow> json
     \<Rightarrow> exn + ExecuteResponse" where
  "ExecuteResponse_init lax a c t ct tos md sc er =
     (case validate_str a of None \<Rightarrow> Inl ValidationError | Some a' \<Rightarrow>
     (case validate_confidence lax c of None \<Rightarrow> Inl ValidationError | Some c' \<Rightarrow>
     (case validate_list_str t of None \<Rightarrow> Inl ValidationError | Some t' \<Rightarrow>
     (case validate_opt_str ct of None \<Rightarrow> Inl ValidationError | Some ct' \<Rightarrow>
     (case validate_opt_dict tos of None \<Rightarrow> Inl ValidationError | Some tos' \<Rightarrow>
     (case validate_opt_dict md of None \<Rightarrow> Inl ValidationError | Some md' \<Rightarrow>
     (case validate_opt_dict er of None \<Rightarrow> Inl ValidationError | Some er' \<Rightarrow>
        Inr \<lparr> answer = a', confidence = c', tools_used = t', content_type = ct',
              tool_outputs = tos', metadata = md', success = sc, error = er' \<rparr>)))))))"

section \<open>MCP client (clients/mcp_client.py)\<close>

record MCPClient =
  base_url :: string
  timeout :: rat

definition MCPClient_init :: "settings \<Rightarrow> MCPClient" where
  "MCPClient_init st =
     \<lparr> base_url = rstrip CHR ''/'' (mcp_base_url st), timeout = mcp_timeout st \<rparr>"

definition execute_payload :: "string \<Rightarrow> string \<Rightarrow> string \<Rightarrow> pydict option \<Rightarrow> json" where
  "execute_payload uid cid text md =
     JObj [(''user_id'', JStr uid), (''channel_id'', JStr cid), (''message'', JStr text),
           (''metadata'', JObj (case md of None \<Rightarrow> [] | Some m \<Rightarrow> m))]"

definition execute_request :: "MCPClient \<Rightarrow> string \<Rightarrow> string \<Rightarrow> string \<Rightarrow> pydict option \<Rightarrow> request" where
  "execute_request self uid cid text md =
     \<lparr> req_method = POST,
       req_url = base_url self @ ''/execute'',
       req_params = [],
       req_json = Some (execute_payload uid cid text md),
       req_timeout = Some (timeout self) \<rparr>"

text \<open>
  What \<open>execute\<close> does with the parsed body \<open>data\<close> of a 2xx response. Calling
  \<open>.get\<close> on a value that is not a dict raises \<open>AttributeError\<close>; the keyword arguments
  of the constructor are evaluated before it runs, so that error comes first.
\<close>

definition execution_failed :: "pydict \<Rightarrow> exn" where
  "execution_failed data =
     MCPClientError [Lit ''MCP execution failed: '',
                     Str_json (dict_get data ''error'' (JStr ''Unknown error''))]"

definition execute_transform :: "(json \<Rightarrow> rat option) \<Rightarrow> json \<Rightarrow> exn + ExecuteResponse" where
  "execute_transform lax body =
     (case body of
        JObj data \<Rightarrow>
          if \<not> truthy (dict_get data ''success'' (JBool False))
          then
            (case dict_get data ''error'' (JObj []) of
               JObj err \<Rightarrow>
                 if dict_get err ''code'' (JStr '''') = JStr ''PLAN_LIMIT_REACHED''
                 then ExecuteResponse_init lax
                        (dict_get err ''message'' (JStr ''Plan limit reached''))
                        (JNum 0) (JArr []) JNull JNull
                        (dict_get data ''metadata'' JNull) (Some False) (JObj err)
                 else Inl (execution_failed data)
             | _ \<Rightarrow> Inl (execution_failed data))
          else
            (let content = dict_get data ''content'' JNull
             in case dict_get data ''metadata'' (JObj []) of
                  JObj md \<Rightarrow>
                    ExecuteResponse_init lax
                      (if truthy content then content else JStr '''')
                      (dict_get md ''confidence'' (JNum 0))
                      (dict_get data ''tools_used'' (JArr []))
                      (dict_get data ''content_type'' JNull)
                      (dict_get data ''tool_outputs'' JNull)
                      (dict_get data ''metadata'' JNull)
                      (Some True) JNull
                | _ \<Rightarrow> Inl AttributeError)
      | _ \<Rightarrow> Inl AttributeError)"

text \<open>The body of the \<open>try\<close> block of \<open>MCPClient.execute\<close>.\<close>

definition execute_try ::
  "(json \<Rightarrow> rat option) \<Rightarrow> MCPClient \<Rightarrow> network \<Rightarrow> string \<Rightarrow> string \<Rightarrow> string \<Rightarrow> pydict option
     \<Rightarrow> exn + ExecuteResponse" where
  "execute_try lax self net uid cid text md =
     (case net (execute_request self uid cid text md) of
        Inl e \<Rightarrow> Inl e
      | Inr r \<Rightarrow>
          (case raise_for_status r of
             Inl e \<Rightarrow> Inl e
           | Inr r' \<Rightarrow>
               (case response_json r' of
                  Inl e \<Rightarrow> Inl e
                | Inr body \<Rightarrow> execute_transform lax body)))"

text \<open>
  \<open>MCPClient.execute\<close>: the \<open>try\<close> block under \<open>except httpx.TimeoutException\<close> and
  then \<open>except httpx.HTTPError\<close>, which takes the remaining transport failures and the
  status error.
\<close>

definition MCPClient_execute ::
  "(json \<Rightarrow> rat option) \<Rightarrow> MCPClient \<Rightarrow> network \<Rightarrow> string \<Rightarrow> string \<Rightarrow> string \<Rightarrow> pydict option
     \<Rightarrow> exn + ExecuteResponse" where
  "MCPClient_execute lax self net uid cid text md =
     (case execute_try lax self net uid cid text md of
        Inr res \<Rightarrow> Inr res
      | Inl (TimeoutException m) \<Rightarrow>
          Inl (MCPClientError [Lit ''MCP server request timed out after '',
                               Str_float (timeout self), Lit '' seconds''])
      | Inl (RequestError m) \<Rightarrow>
          Inl (MCPClientError [Lit ''MCP server request failed: '', Lit m])
      | Inl (HTTPStatusError s) \<Rightarrow>
          Inl (MCPClientError [Lit ''MCP server request failed: '', Str_status s])
      | Inl e \<Rightarrow> Inl e)"

section \<open>Execute route (api/v1/execute.py)\<close>


section \<open>Request ID middleware (middleware/request_id.py)\<close>

text \<open>
  Header lists as the framework keeps them: pairs of a lower-cased name and a value.
  \<open>headers.get(name)\<close> lower-cases the name asked for and returns the first match;
  \<open>headers[name] = value\<close> overwrites the first header of that name, drops any
  further ones, and appends when there is none.
\<close>

definition lower_char :: "char \<Rightarrow> char" where
  "lower_char c =
     (case map_of (zip ''ABCDEFGHIJKLMNOPQRSTUVWXYZ'' ''abcdefghijklmnopqrstuvwxyz'') c of
        None \<Rightarrow> c
      | Some l \<Rightarrow> l)"

definition lower :: "string \<Rightarrow> string" where
  "lower s = map lower_char s"

type_synonym headers = "(string \<times> string) list"

definition headers_get :: "headers \<Rightarrow> string \<Rightarrow> string option" where
  "headers_get hs name = map_of hs (lower name)"

fun set_first :: "headers \<Rightarrow> string \<Rightarrow> string \<Rightarrow> headers" where
  "set_first [] k v = [(k, v)]"
| "set_first ((a, b) # hs) k v =
     (if a = k then (k, v) # filter (\<lambda>h. fst h \<noteq> k) hs else (a, b) # set_first hs k v)"

definition headers_set :: "headers \<Rightarrow> string \<Rightarrow> string \<Rightarrow> headers" where
  "headers_set hs name v = set_first hs (lower name) v"

record inbound =
  in_method :: string
  in_path :: string
  in_headers :: headers
  in_request_id :: "string option"

datatype body = Content json | Detail msg | Plain string

record outbound =
  out_status :: nat
  out_headers :: headers
  out_body :: body

definition REQUEST_ID_HEADER :: string where
  "REQUEST_ID_HEADER = ''X-Request-ID''"

text \<open>
  \<open>request.headers.get(REQUEST_ID_HEADER) or str(uuid.uuid4())\<close>: the header's value
  when there is one and it is not empty, else the fresh identifier, which is given
  as an argument.
\<close>

definition request_id_of :: "string \<Rightarrow> inbound \<Rightarrow> string" where
  "request_id_of fresh rq =
     (case headers_get (in_headers rq) REQUEST_ID_HEADER of
        None \<Rightarrow> fresh
      | Some v \<Rightarrow> if v \<noteq> [] then v else fresh)"

text \<open>
  \<open>RequestIDMiddleware.dispatch\<close>. \<open>call_next\<close> returns the response of the stack
  below or raises what that stack let escape; the header is set on a returned response.
\<close>

definition dispatch ::
  "string \<Rightarrow> inbound \<Rightarrow> (inbound \<Rightarrow> exn + outbound) \<Rightarrow> exn + outbound" where
  "dispatch fresh rq call_next =
     (let request_id = request_id_of fresh rq
      in case call_next (rq\<lparr>in_request_id := Some request_id\<rparr>) of
           Inl e \<Rightarrow> Inl e
         | Inr resp \<Rightarrow>
             Inr (resp\<lparr>out_headers := headers_set (out_headers resp) REQUEST_ID_HEADER request_id\<rparr>))"

text \<open>
  Around the middleware, as the framework does it. Under it, the outcome of a route
  (for a route declared \<open>-> dict\<close>, after the check of the returned value) becomes a
  response: a value that is sent becomes a 200 response, an \<open>HTTPException\<close> becomes a
  response with its status and detail, and any other exception is raised on. The
  headers \<open>hs\<close> that rendering the body gives the response (\<open>content-length\<close> and
  \<open>content-type\<close>) are given. Above the middleware, an exception that comes through
  is answered with a plain 500.
\<close>

fun route_response :: "headers \<Rightarrow> exn + json \<Rightarrow> exn + outbound" where
  "route_response hs (Inr v) =
     Inr \<lparr> out_status = 200, out_headers = hs, out_body = Content v \<rparr>"
| "route_response hs (Inl (HTTPException s d)) =
     Inr \<lparr> out_status = s, out_headers = hs, out_body = Detail d \<rparr>"
| "route_response hs (Inl e) = Inl e"

definition server_error_response :: outbound where
  "server_error_response =
     \<lparr> out_status = 500,
       out_headers = [(''content-length'', ''21''),
                      (''content-type'', ''text/plain; charset=utf-8'')],
       out_body = Plain ''Internal Server Error'' \<rparr>"

definition answer_of :: "exn + outbound \<Rightarrow> outbound" where
  "answer_of out = (case out of Inr resp \<Rightarrow> resp | Inl e \<Rightarrow> server_error_response)"

text \<open>A route under the middleware whose outcome and rendered headers are given.\<close>

definition route :: "headers \<Rightarrow> exn + json \<Rightarrow> inbound \<Rightarrow> exn + outbound" where
  "route hs outcome rq = route_response hs outcome"

section \<open>YouTube OAuth (api/v1/auth/youtube.py)\<close>

subsection \<open>Strings\<close>

text \<open>
  A string is a list of code points below 256. \<open>s.replace(old, new)\<close> for a non-empty
  \<open>old\<close>, \<open>s.strip(chars)\<close>, \<open>s.split(sep)\<close> for a one-character separator,
  \<open>s.strip()\<close> and \<open>sep.join(xs)\<close>.
\<close>

function py_replace :: "string \<Rightarrow> string \<Rightarrow> string \<Rightarrow> string" where
  "py_replace old new [] = []"
| "py_replace old new (c # cs) =
     (if old \<noteq> [] \<and> take (length old) (c # cs) = old
      then new @ py_replace old new (drop (length old) (c # cs))
      else c # py_replace old new cs)"
  by pat_completeness auto
termination
  by (relation "measure (\<lambda>(old, new, s). length s)") auto

definition strip_chars :: "string \<Rightarrow> string \<Rightarrow> string" where
  "strip_chars chars s =
     rev (dropWhile (\<lambda>c. c \<in> set chars) (rev (dropWhile (\<lambda>c. c \<in> set chars) s)))"

fun split_on :: "char \<Rightarrow> string \<Rightarrow> string list" where
  "split_on sep [] = [[]]"
| "split_on sep (c # cs) =
     (let r = split_on sep cs in if c = sep then [] # r else (c # hd r) # tl r)"

definition is_space :: "char \<Rightarrow> bool" where
  "is_space c = ((of_char c :: nat) \<in> {9, 10, 11, 12, 13, 28, 29, 30, 31, 32, 133, 160})"

definition strip :: "string \<Rightarrow> string" where
  "strip s = rev (dropWhile is_space (rev (dropWhile is_space s)))"

fun join :: "string \<Rightarrow> string list \<Rightarrow> string" where
  "join sep [] = []"
| "join sep [x] = x"
| "join sep (x # y # ys) = x @ sep @ join sep (y # ys)"

subsection \<open>URL encoding (urllib.parse)\<close>

definition is_unreserved :: "char \<Rightarrow> bool" where
  "is_unreserved c =
     (let n = (of_char c :: nat)
      in (48 \<le> n \<and> n \<le> 57) \<or> (65 \<le> n \<and> n \<le> 90) \<or> (97 \<le> n \<and> n \<le> 122)
         \<or> c \<in> set ''_.-~'')"

definition pct :: "nat \<Rightarrow> string" where
  "pct n = [CHR ''%'', ''0123456789ABCDEF'' ! (n div 16), ''0123456789ABCDEF'' ! (n mod 16)]"

text \<open>A code point from 128 on is two bytes in UTF-8, each escaped.\<close>

definition quote_plus_char :: "char \<Rightarrow> string" where
  "quote_plus_char c =
     (let n = (of_char c :: nat)
      in if is_unreserved c then [c]
         else if c = CHR '' '' then ''+''
         else if n < 128 then pct n
         else pct (192 + n div 64) @ pct (128 + n mod 64))"

definition quote_plus :: "string \<Rightarrow> string" where
  "quote_plus s = concat (map quote_plus_char s)"

definition urlencode :: "(string \<times> string) list \<Rightarrow> string" where
  "urlencode ps = join ''&'' (map (\<lambda>(k, v). quote_plus k @ ''='' @ quote_plus v) ps)"

subsection \<open>UUIDs (the standard library's \<open>uuid.UUID(hex)\<close>)\<close>

text \<open>
  \<open>uuid.UUID(s)\<close> drops \<open>urn:\<close> and \<open>uuid:\<close>, strips braces, drops hyphens, wants 32
  characters left, reads them with \<open>int(hex, 16)\<close> and wants the number below
  \<open>2 ^ 128\<close>. Python's \<open>int(\<cdot>, 16)\<close> is the parameter \<open>pyint\<close>, \<open>None\<close> where it
  raises. The UUID is kept as its number.
\<close>

definition uuid_UUID :: "(string \<Rightarrow> int option) \<Rightarrow> string \<Rightarrow> exn + int" where
  "uuid_UUID pyint s =
     (let hex = py_replace ''uuid:'' [] (py_replace ''urn:'' [] s);
          hex = filter (\<lambda>c. c \<noteq> CHR ''-'') (strip_chars ''{}'' hex)
      in if length hex \<noteq> 32
         then Inl (ValueError [Lit ''badly formed hexadecimal UUID string''])
         else (case pyint hex of
                 None \<Rightarrow> Inl (ValueError [Lit ''invalid literal for int() with base 16: '',
                                          Repr hex])
               | Some i \<Rightarrow>
                   if 0 \<le> i \<and> i < 2 ^ 128 then Inr i
                   else Inl (ValueError [Lit ''int is out of range (need a 128-bit value)''])))"

text \<open>\<open>int(s, 16)\<close> on strings of hexadecimal digits, for concrete runs.\<close>

definition hex_value :: "char \<Rightarrow> int option" where
  "hex_value c =
     (let n = (of_char c :: nat)
      in if 48 \<le> n \<and> n \<le> 57 then Some (int n - 48)
         else if 65 \<le> n \<and> n \<le> 70 then Some (int n - 55)
         else if 97 \<le> n \<and> n \<le> 102 then Some (int n - 87)
         else None)"

fun hex_digits :: "int \<Rightarrow> string \<Rightarrow> int option" where
  "hex_digits acc [] = Some acc"
| "hex_digits acc (c # cs) =
     (case hex_value c of None \<Rightarrow> None | Some d \<Rightarrow> hex_digits (16 * acc + d) cs)"

definition hex_int :: "string \<Rightarrow> int option" where
  "hex_int s = (if s = [] then None else hex_digits 0 s)"

subsection \<open>The pending-state store and the flow\<close>

text \<open>
  \<open>_pending_states\<close>, the module's dict from state token to user id, is passed in and
  returned. The result of \<open>secrets.token_urlsafe(16)\<close> is given as an argument.
\<close>

type_synonym pending_states = "string \<rightharpoonup> string"

definition auth_params :: "settings \<Rightarrow> string \<Rightarrow> (string \<times> string) list" where
  "auth_params st state_value =
     [(''client_id'', google_client_id st),
      (''redirect_uri'', google_redirect_uri st),
      (''response_type'', ''code''),
      (''scope'', join '' '' (map strip (split_on CHR '','' (youtube_scopes st)))),
      (''access_type'', ''offline''),
      (''prompt'', ''consent''),
      (''state'', state_value)]"

definition build_google_auth_url ::
  "string \<Rightarrow> string \<Rightarrow> settings \<Rightarrow> pending_states \<Rightarrow> string \<times> pending_states" where
  "build_google_auth_url state_token uid st pending =
     (let state_value = uid @ '':'' @ state_token
      in (google_auth_url st @ ''?'' @ urlencode (auth_params st state_value),
          pending(state_token \<mapsto> uid)))"

definition validate_state ::
  "(string \<Rightarrow> int option) \<Rightarrow> string \<Rightarrow> pending_states \<Rightarrow> (exn + int) \<times> pending_states" where
  "validate_state pyint state pending =
     (if CHR '':'' \<notin> set state
      then (uuid_UUID pyint state, pending)
      else
        (let user_id_str = takeWhile (\<lambda>c. c \<noteq> CHR '':'') state;
             state_token = tl (dropWhile (\<lambda>c. c \<noteq> CHR '':'') state)
         in case uuid_UUID pyint user_id_str of
              Inl e \<Rightarrow> (Inl e, pending)
            | Inr user_uuid \<Rightarrow>
                (case pending state_token of
                   None \<Rightarrow> (Inl (ValueError [Lit ''Unknown or expired state token'']), pending)
                 | Some stored_user_id \<Rightarrow>
                     if stored_user_id \<noteq> user_id_str
                     then (Inl (ValueError [Lit ''State token user_id mismatch'']),
                           pending(state_token := None))
                     else (Inr user_uuid, pending(state_token := None)))))"

text \<open>\<open>GET /auth/youtube/start\<close>; the response model has the one field \<open>auth_url\<close>.\<close>

definition youtube_auth_start ::
  "(string \<Rightarrow> int option) \<Rightarrow> string \<Rightarrow> settings \<Rightarrow> pending_states \<Rightarrow> string
     \<Rightarrow> (exn + string) \<times> pending_states" where
  "youtube_auth_start pyint state_token st pending uid =
     (if google_client_id st = []
      then (Inl (HTTPException 500 [Lit ''Google OAuth is not configured'']), pending)
      else if google_redirect_uri st = []
      then (Inl (HTTPException 500 [Lit ''Google OAuth redirect URI is not configured'']),
            pending)
      else (case uuid_UUID pyint uid of
              Inl e \<Rightarrow>
                (Inl (HTTPException 400 [Lit ''Invalid user_id format. Expected UUID.'']),
                 pending)
            | Inr u \<Rightarrow>
                (let (auth_url, pending') = build_google_auth_url state_token uid st pending
                 in (Inr auth_url, pending'))))"

text \<open>
  \<open>GET /auth/youtube/callback\<close>. Every outcome is a 302 to the mobile deep link:
  with \<open>status=error\<close> and a detail, or with \<open>status=success\<close> and the user, channel
  id and channel name. The three outbound steps after the state check (token exchange,
  channel lookup, forwarding to MCP) are the module's helpers, each of which returns or
  raises; they are taken as given.
\<close>

datatype redirect =
    Redirect_error msg
  | Redirect_success int json json

record oauth_steps =
  exchange_code_for_tokens :: "string \<Rightarrow> exn + json"
  fetch_youtube_channel :: "json \<Rightarrow> exn + json \<times> json"
  forward_channel_to_mcp :: "int \<Rightarrow> json \<Rightarrow> json \<Rightarrow> json \<Rightarrow> json \<Rightarrow> exn + unit"

text \<open>The callback from the token exchange on, for a user the state check accepted.\<close>

definition callback_connect :: "oauth_steps \<Rightarrow> string \<Rightarrow> int \<Rightarrow> exn + redirect" where
  "callback_connect env code user_uuid =
     (case exchange_code_for_tokens env code of
        Inl e \<Rightarrow> Inr (Redirect_error [Lit ''Token exchange failed''])
      | Inr (JObj tokens) \<Rightarrow>
          (let access_token = dict_get tokens ''access_token'' JNull;
               refresh_token = dict_get tokens ''refresh_token'' JNull
           in if \<not> truthy access_token
              then Inr (Redirect_error [Lit ''No access token received''])
              else
                (case fetch_youtube_channel env access_token of
                   Inl e \<Rightarrow> Inr (Redirect_error [Lit ''Failed to fetch channel info''])
                 | Inr (youtube_channel_id, channel_name) \<Rightarrow>
                     (case forward_channel_to_mcp env user_uuid youtube_channel_id
                             channel_name access_token refresh_token of
                        Inl e \<Rightarrow> Inr (Redirect_error [Lit ''Failed to save connection''])
                      | Inr u \<Rightarrow>
                          Inr (Redirect_success user_uuid youtube_channel_id channel_name))))
      | Inr other \<Rightarrow> Inl AttributeError)"

definition youtube_auth_callback ::
  "(string \<Rightarrow> int option) \<Rightarrow> oauth_steps \<Rightarrow> string \<Rightarrow> string \<Rightarrow> pending_states
     \<Rightarrow> (exn + redirect) \<times> pending_states" where
  "youtube_auth_callback pyint env code state pending =
     (case validate_state pyint state pending of
        (Inl (ValueError m), pending') \<Rightarrow> (Inr (Redirect_error m), pending')
      | (Inl e, pending') \<Rightarrow> (Inl e, pending')
      | (Inr user_uuid, pending') \<Rightarrow> (callback_connect env code user_uuid, pending'))"

text \<open>An environment in which every outbound step of the callback fails.\<close>

definition offline_steps :: oauth_steps where
  "offline_steps =
     \<lparr> exchange_code_for_tokens = (\<lambda>code. Inl (OtherException ''offline'')),
       fetch_youtube_channel = (\<lambda>access_token. Inl (OtherException ''offline'')),
       forward_channel_to_mcp = (\<lambda>u c n a r. Inl (OtherException ''offline'')) \<rparr>"

text \<open>
  What \<open>secrets.token_urlsafe\<close> returns: a non-empty string over the URL-safe Base64
  alphabet (letters, digits, hyphen and underscore).
\<close>

definition is_urlsafe_token :: "string \<Rightarrow> bool" where
  "is_urlsafe_token t =
     (t \<noteq> [] \<and> (\<forall>c \<in> set t. is_unreserved c \<and> c \<noteq> CHR ''.'' \<and> c \<noteq> CHR ''~''))"

text \<open>
  A UUID in its usual text form: 8, 4, 4, 4 and 12 hexadecimal digits with hyphens
  between the groups.
\<close>

definition is_hex_char :: "char \<Rightarrow> bool" where
  "is_hex_char c = (hex_value c \<noteq> None)"

definition canonical_uuid :: "string \<Rightarrow> bool" where
  "canonical_uuid s =
     (length s = 36
      \<and> list_all is_hex_char (take 8 s) \<and> s ! 8 = CHR ''-''
      \<and> list_all is_hex_char (take 4 (drop 9 s)) \<and> s ! 13 = CHR ''-''
      \<and> list_all is_hex_char (take 4 (drop 14 s)) \<and> s ! 18 = CHR ''-''
      \<and> list_all is_hex_char (take 4 (drop 19 s)) \<and> s ! 23 = CHR ''-''
      \<and> list_all is_hex_char (drop 24 s))"

section \<open>Properties\<close>

subsection \<open>Channel statistics\<close>





subsection \<open>Top video\<close>

text \<open>
  C4, evaluated where it fails. When MCP answers \<open>GET /analytics/top-video\<close> with a 404,
  \<open>raise_for_status\<close> raises \<open>HTTPStatusError\<close>, which is not a \<open>RequestError\<close>: the
  only \<open>except\<close> clause of \<open>get_top_video\<close> lets it escape, so the caller gets the
  framework's 500 and not MCP's 404. The sibling \<open>get_channel_stats\<close> hands the same
  response's status on. A transport failure does give the fallback payload.
\<close>

theorem get_top_video_status_escapes:
  "get_top_video Settings_defaults
      (always (Inr \<lparr> status_code = 404, body_json = Some (JObj [(''detail'', JStr ''Not Found'')]) \<rparr>))
      ''00000000-0000-0000-0000-000000000001'' ''7d''
     = Inl (HTTPStatusError 404)
   \<and> status_to_caller
       (get_top_video Settings_defaults
        (always (Inr \<lparr> status_code = 404, body_json = Some (JObj [(''detail'', JStr ''Not Found'')]) \<rparr>))
        ''00000000-0000-0000-0000-000000000001'' ''7d'') = 500
   \<and> status_to_caller
       (get_channel_stats Settings_defaults
        (always (Inr \<lparr> status_code = 404, body_json = Some (JObj [(''detail'', JStr ''Not Found'')]) \<rparr>))
        ''00000000-0000-0000-0000-000000000001'' ''7d'') = 404
   \<and> get_top_video Settings_defaults
      (always (Inl (RequestError ''connection refused'')))
      ''00000000-0000-0000-0000-000000000001'' ''7d''
     = Inr (JObj [(''video_id'', JNull), (''title'', JNull), (''thumbnail_url'', JNull),
                  (''views'', JNum 0), (''growth_percentage'', JNum 0)])"
  by (simp add: always_def get_top_video_def top_video_try_def raise_for_status_def is_success_def
      get_channel_stats_def channel_stats_try_def top_video_fallback_def)

subsection \<open>User status\<close>



subsection \<open>Execute route\<close>



subsection \<open>MCP client\<close>

lemma validate_list_str_strings: "those (map (validate_str \<circ> JStr) ts) = Some ts"
  by (induction ts) simp_all

lemma validate_opt_str_of_opt: "validate_opt_str (json_of_opt_str v) = Some v"
  by (cases v) simp_all

lemma validate_opt_dict_of_opt: "validate_opt_dict (json_of_opt_dict v) = Some v"
  by (cases v) simp_all

lemma ExecuteResponse_init_raises:
  "ExecuteResponse_init lax a c t ct tos md sc er = Inl e \<Longrightarrow> e = ValidationError"
  by (simp add: ExecuteResponse_init_def split: option.splits)

lemma execute_transform_raises:
  "execute_transform lax body = Inl e \<Longrightarrow>
     e = ValidationError \<or> e = AttributeError \<or> (\<exists>m. e = MCPClientError m)"
  by (auto simp: execute_transform_def execution_failed_def Let_def
      split: json.splits if_splits dest: ExecuteResponse_init_raises)

lemma MCPClient_execute_2xx:
  assumes "net (execute_request self uid cid text md) = Inr r"
    and "is_success r" and "body_json r = Some body"
  shows "MCPClient_execute lax self net uid cid text md = execute_transform lax body"
proof (cases "execute_transform lax body")
  case (Inl e)
  with execute_transform_raises [of lax body e]
  have "e = ValidationError \<or> e = AttributeError \<or> (\<exists>m. e = MCPClientError m)"
    by simp
  with Inl assms show ?thesis
    by (auto simp: MCPClient_execute_def execute_try_def raise_for_status_def
        response_json_def)
next
  case (Inr res)
  with assms show ?thesis
    by (simp add: MCPClient_execute_def execute_try_def raise_for_status_def
        response_json_def)
qed

lemma MCPClient_execute_status_error:
  assumes "net (execute_request self uid cid text md) = Inr r" and "\<not> is_success r"
  shows "MCPClient_execute lax self net uid cid text md
         = Inl (MCPClientError [Lit ''MCP server request failed: '', Str_status (status_code r)])"
  using assms
  by (simp add: MCPClient_execute_def execute_try_def raise_for_status_def)

text \<open>
  C1 as stated fails: a response with status 429 whose body carries the error code
  \<open>PLAN_LIMIT_REACHED\<close> makes \<open>MCPClient.execute\<close> raise, because
  \<open>raise_for_status\<close> runs before the body is read.
\<close>

theorem MCPClient_execute_plan_limit_429_raises:
  "MCPClient_execute lax_none (MCPClient_init Settings_defaults)
     (always (Inr \<lparr> status_code = 429,
        body_json = Some (JObj [(''success'', JBool False),
          (''error'', JObj [(''code'', JStr ''PLAN_LIMIT_REACHED''),
                            (''message'', JStr ''Plan limit reached'')])]) \<rparr>))
     ''u1'' ''c1'' ''hello'' None
   = Inl (MCPClientError [Lit ''MCP server request failed: '', Str_status 429])"
  by (simp add: MCPClient_execute_def execute_try_def always_def raise_for_status_def
      is_success_def)

text \<open>
  C1, amended. A response whose status is outside 200..299 makes \<open>MCPClient.execute\<close>
  raise \<open>MCPClientError\<close> "MCP server request failed: ..." with the status error's text,
  whatever the body says. For a 2xx response whose JSON body is an object with \<open>success\<close>
  absent or falsy: if \<open>error\<close> is an object whose \<open>code\<close> is the string
  \<open>PLAN_LIMIT_REACHED\<close>, whose \<open>message\<close> is a string or absent, and \<open>metadata\<close> is
  an object, null or absent, the call returns a response with \<open>success = False\<close>,
  confidence 0, no tools, the message (or "Plan limit reached" when absent) as answer,
  the error object attached and the metadata passed on; if \<open>error\<close> is not an object
  with that code (no object at all, or an object whose \<open>code\<close> is absent or anything
  else), the call raises \<open>MCPClientError\<close> "MCP execution failed: ..." with the
  upstream \<open>error\<close> value (or "Unknown error" when absent).
\<close>

theorem MCPClient_execute_failure_outcomes:
  assumes "net (execute_request self uid cid text md) = Inr r"
  shows
  "(\<not> is_success r \<longrightarrow>
      MCPClient_execute lax self net uid cid text md
        = Inl (MCPClientError [Lit ''MCP server request failed: '', Str_status (status_code r)]))
   \<and> (is_success r \<and> body_json r = Some (JObj data)
       \<and> \<not> truthy (dict_get data ''success'' (JBool False))
       \<and> dict_get data ''error'' (JObj []) = JObj err
       \<and> dict_get err ''code'' (JStr '''') = JStr ''PLAN_LIMIT_REACHED''
       \<and> dict_get err ''message'' (JStr ''Plan limit reached'') = JStr a
       \<and> dict_get data ''metadata'' JNull = json_of_opt_dict m \<longrightarrow>
      MCPClient_execute lax self net uid cid text md
        = Inr \<lparr> answer = a, confidence = 0, tools_used = [], content_type = None,
                tool_outputs = None, metadata = m, success = Some False, error = Some err \<rparr>)
   \<and> (is_success r \<and> body_json r = Some (JObj data)
       \<and> \<not> truthy (dict_get data ''success'' (JBool False))
       \<and> (\<forall>e. dict_get data ''error'' (JObj []) = JObj e \<longrightarrow>
              dict_get e ''code'' (JStr '''') \<noteq> JStr ''PLAN_LIMIT_REACHED'') \<longrightarrow>
      MCPClient_execute lax self net uid cid text md
        = Inl (MCPClientError [Lit ''MCP execution failed: '',
                 Str_json (dict_get data ''error'' (JStr ''Unknown error''))]))"
proof (intro conjI impI)
  assume "\<not> is_success r"
  with assms show "MCPClient_execute lax self net uid cid text md
        = Inl (MCPClientError [Lit ''MCP server request failed: '', Str_status (status_code r)])"
    by (rule MCPClient_execute_status_error)
next
  assume h: "is_success r \<and> body_json r = Some (JObj data)
       \<and> \<not> truthy (dict_get data ''success'' (JBool False))
       \<and> dict_get data ''error'' (JObj []) = JObj err
       \<and> dict_get err ''code'' (JStr '''') = JStr ''PLAN_LIMIT_REACHED''
       \<and> dict_get err ''message'' (JStr ''Plan limit reached'') = JStr a
       \<and> dict_get data ''metadata'' JNull = json_of_opt_dict m"
  then have "MCPClient_execute lax self net uid cid text md = execute_transform lax (JObj data)"
    using assms MCPClient_execute_2xx by blast
  also from h have "\<dots> = Inr \<lparr> answer = a, confidence = 0, tools_used = [], content_type = None,
                tool_outputs = None, metadata = m, success = Some False, error = Some err \<rparr>"
    by (simp add: execute_transform_def ExecuteResponse_init_def validate_confidence_def
        validate_opt_dict_of_opt)
  finally show "MCPClient_execute lax self net uid cid text md
        = Inr \<lparr> answer = a, confidence = 0, tools_used = [], content_type = None,
                tool_outputs = None, metadata = m, success = Some False, error = Some err \<rparr>" .
next
  assume h: "is_success r \<and> body_json r = Some (JObj data)
       \<and> \<not> truthy (dict_get data ''success'' (JBool False))
       \<and> (\<forall>e. dict_get data ''error'' (JObj []) = JObj e \<longrightarrow>
              dict_get e ''code'' (JStr '''') \<noteq> JStr ''PLAN_LIMIT_REACHED'')"
  then have "MCPClient_execute lax self net uid cid text md = execute_transform lax (JObj data)"
    using assms MCPClient_execute_2xx by blast
  also from h have "\<dots> = Inl (execution_failed data)"
    by (simp add: execute_transform_def split: json.splits)
  finally show "MCPClient_execute lax self net uid cid text md
        = Inl (MCPClientError [Lit ''MCP execution failed: '',
                 Str_json (dict_get data ''error'' (JStr ''Unknown error''))])"
    by (simp add: execution_failed_def)
qed
theorem MCPClient_execute_failure_outcomes_witness:
  "MCPClient_execute lax_none (MCPClient_init Settings_defaults)
     (always (Inr \<lparr> status_code = 500, body_json = None \<rparr>)) ''u1'' ''c1'' ''hello'' None
   = Inl (MCPClientError [Lit ''MCP server request failed: '', Str_status 500])
   \<and> MCPClient_execute lax_none (MCPClient_init Settings_defaults)
     (always (Inr \<lparr> status_code = 200,
        body_json = Some (JObj [(''success'', JBool False),
          (''error'', JObj [(''code'', JStr ''PLAN_LIMIT_REACHED''),
                            (''message'', JStr ''Plan limit reached'')])]) \<rparr>))
     ''u1'' ''c1'' ''hello'' None
   = Inr \<lparr> answer = ''Plan limit reached'', confidence = 0, tools_used = [],
           content_type = None, tool_outputs = None, metadata = None, success = Some False,
           error = Some [(''code'', JStr ''PLAN_LIMIT_REACHED''),
                         (''message'', JStr ''Plan limit reached'')] \<rparr>
   \<and> MCPClient_execute lax_none (MCPClient_init Settings_defaults)
     (always (Inr \<lparr> status_code = 200,
        body_json = Some (JObj [(''success'', JBool False), (''error'', JStr ''boom'')]) \<rparr>))
     ''u1'' ''c1'' ''hello'' None
   = Inl (MCPClientError [Lit ''MCP execution failed: '', Str_json (JStr ''boom'')])"
proof -
  let ?plan = "[(''code'', JStr ''PLAN_LIMIT_REACHED''), (''message'', JStr ''Plan limit reached'')]"
  let ?r1 = "\<lparr> status_code = 500, body_json = None \<rparr>"
  let ?d2 = "[(''success'', JBool False), (''error'', JObj ?plan)]"
  let ?r2 = "\<lparr> status_code = 200, body_json = Some (JObj ?d2) \<rparr>"
  let ?d3 = "[(''success'', JBool False), (''error'', JStr ''boom'')]"
  let ?r3 = "\<lparr> status_code = 200, body_json = Some (JObj ?d3) \<rparr>"
  have n: "\<And>out q. always out q = out"
    by (simp add: always_def)
  have one: "\<not> is_success ?r1"
    by (simp add: is_success_def)
  have two: "is_success ?r2 \<and> body_json ?r2 = Some (JObj ?d2)
       \<and> \<not> truthy (dict_get ?d2 ''success'' (JBool False))
       \<and> dict_get ?d2 ''error'' (JObj []) = JObj ?plan
       \<and> dict_get ?plan ''code'' (JStr '''') = JStr ''PLAN_LIMIT_REACHED''
       \<and> dict_get ?plan ''message'' (JStr ''Plan limit reached'') = JStr ''Plan limit reached''
       \<and> dict_get ?d2 ''metadata'' JNull = json_of_opt_dict None"
    by (simp add: is_success_def dict_get_def)
  have three: "is_success ?r3 \<and> body_json ?r3 = Some (JObj ?d3)
       \<and> \<not> truthy (dict_get ?d3 ''success'' (JBool False))
       \<and> (\<forall>e. dict_get ?d3 ''error'' (JObj []) = JObj e \<longrightarrow>
              dict_get e ''code'' (JStr '''') \<noteq> JStr ''PLAN_LIMIT_REACHED'')"
    by (simp add: is_success_def dict_get_def)
  have e3: "dict_get ?d3 ''error'' (JStr ''Unknown error'') = JStr ''boom''"
    by (simp add: dict_get_def)
  from one
    MCPClient_execute_failure_outcomes [of "always (Inr ?r1)" "MCPClient_init Settings_defaults"
      "''u1''" "''c1''" "''hello''" None ?r1 lax_none, OF n]
  have c1: "MCPClient_execute lax_none (MCPClient_init Settings_defaults)
     (always (Inr ?r1)) ''u1'' ''c1'' ''hello'' None
   = Inl (MCPClientError [Lit ''MCP server request failed: '', Str_status 500])"
    by simp
  from two
    MCPClient_execute_failure_outcomes [of "always (Inr ?r2)" "MCPClient_init Settings_defaults"
      "''u1''" "''c1''" "''hello''" None ?r2 lax_none ?d2 ?plan "''Plan limit reached''" None,
      OF n]
  have c2: "MCPClient_execute lax_none (MCPClient_init Settings_defaults)
     (always (Inr ?r2)) ''u1'' ''c1'' ''hello'' None
   = Inr \<lparr> answer = ''Plan limit reached'', confidence = 0, tools_used = [],
           content_type = None, tool_outputs = None, metadata = None, success = Some False,
           error = Some ?plan \<rparr>"
    by blast
  from three e3
    MCPClient_execute_failure_outcomes [of "always (Inr ?r3)" "MCPClient_init Settings_defaults"
      "''u1''" "''c1''" "''hello''" None ?r3 lax_none ?d3, OF n]
  have c3: "MCPClient_execute lax_none (MCPClient_init Settings_defaults)
     (always (Inr ?r3)) ''u1'' ''c1'' ''hello'' None
   = Inl (MCPClientError [Lit ''MCP execution failed: '', Str_json (JStr ''boom'')])"
    by metis
  from c1 c2 c3 show ?thesis
    by blast
qed

text \<open>
  C3 as stated fails: a 2xx response with \<open>success\<close> true whose
  \<open>metadata.confidence\<close> is 2 does not give a response; the model rejects the value
  (\<open>ge=0, le=1\<close>) and the call raises.
\<close>

theorem MCPClient_execute_confidence_2_raises:
  "MCPClient_execute lax_none (MCPClient_init Settings_defaults)
     (always (Inr \<lparr> status_code = 200,
        body_json = Some (JObj [(''success'', JBool True), (''content'', JStr ''hi''),
          (''metadata'', JObj [(''confidence'', JNum 2)])]) \<rparr>))
     ''u1'' ''c1'' ''hello'' None
   = Inl ValidationError"
  by (simp add: MCPClient_execute_def execute_try_def always_def raise_for_status_def
      is_success_def response_json_def execute_transform_def dict_get_def
      ExecuteResponse_init_def validate_confidence_def)

text \<open>
  C3, amended. For a 2xx response whose JSON body is an object with a truthy
  \<open>success\<close>, whose \<open>content\<close> is a string, null or absent, whose \<open>metadata\<close> is an
  object or absent, whose \<open>metadata.confidence\<close> is a number between 0 and 1 or absent,
  whose \<open>tools_used\<close> is a list of strings or absent, whose \<open>content_type\<close> is a
  string, null or absent and whose \<open>tool_outputs\<close> is an object, null or absent,
  \<open>MCPClient.execute\<close> returns a response with: the content as answer (the empty
  string when it is null or absent), that confidence (0 when absent), those tools (none
  when absent), and \<open>content_type\<close>, \<open>tool_outputs\<close> and \<open>metadata\<close> as they came.
\<close>

theorem MCPClient_execute_success_mapping:
  assumes "net (execute_request self uid cid text md) = Inr r"
    and "is_success r"
    and "body_json r = Some (JObj data)"
    and "truthy (dict_get data ''success'' (JBool False))"
    and "dict_get data ''content'' JNull = json_of_opt_str content"
    and "dict_get data ''metadata'' (JObj []) = JObj meta"
    and "dict_get meta ''confidence'' (JNum 0) = JNum c"
    and "0 \<le> c" and "c \<le> 1"
    and "dict_get data ''tools_used'' (JArr []) = JArr (map JStr tools)"
    and "dict_get data ''content_type'' JNull = json_of_opt_str ct"
    and "dict_get data ''tool_outputs'' JNull = json_of_opt_dict tos"
  shows "MCPClient_execute lax self net uid cid text md
         = Inr \<lparr> answer = (case content of None \<Rightarrow> '''' | Some s \<Rightarrow> s),
                 confidence = c,
                 tools_used = tools,
                 content_type = ct,
                 tool_outputs = tos,
                 metadata = (case map_of data ''metadata'' of None \<Rightarrow> None | Some v \<Rightarrow> Some meta),
                 success = Some True,
                 error = None \<rparr>"
proof -
  have ans: "validate_str (if truthy (json_of_opt_str content) then json_of_opt_str content
                          else JStr '''')
             = Some (case content of None \<Rightarrow> '''' | Some s \<Rightarrow> s)"
    by (cases content) simp_all
  have md: "validate_opt_dict (dict_get data ''metadata'' JNull)
            = Some (case map_of data ''metadata'' of None \<Rightarrow> None | Some v \<Rightarrow> Some meta)"
    using assms(6) by (simp add: dict_get_def split: option.splits)
  have "MCPClient_execute lax self net uid cid text md = execute_transform lax (JObj data)"
    using assms(1-3) by (rule MCPClient_execute_2xx)
  also have "\<dots> = ExecuteResponse_init lax
                      (if truthy (json_of_opt_str content) then json_of_opt_str content
                       else JStr '''')
                      (JNum c) (JArr (map JStr tools)) (json_of_opt_str ct)
                      (json_of_opt_dict tos) (dict_get data ''metadata'' JNull)
                      (Some True) JNull"
    using assms(4-7,10-12) by (simp add: execute_transform_def)
  also have "\<dots> = Inr \<lparr> answer = (case content of None \<Rightarrow> '''' | Some s \<Rightarrow> s),
                 confidence = c, tools_used = tools, content_type = ct, tool_outputs = tos,
                 metadata = (case map_of data ''metadata'' of None \<Rightarrow> None | Some v \<Rightarrow> Some meta),
                 success = Some True, error = None \<rparr>"
    using assms(8,9)
    by (simp add: ExecuteResponse_init_def ans md validate_confidence_def
        validate_list_str_strings validate_opt_str_of_opt validate_opt_dict_of_opt)
  finally show ?thesis .
qed

theorem MCPClient_execute_success_mapping_witness:
  "MCPClient_execute lax_none (MCPClient_init Settings_defaults)
     (always (Inr \<lparr> status_code = 200,
        body_json = Some (JObj [(''success'', JBool True), (''content'', JStr ''hi''),
          (''content_type'', JStr ''analytics''),
          (''tools_used'', JArr [JStr ''fetch_analytics'']),
          (''tool_outputs'', JObj [(''views'', JNum 15420)]),
          (''metadata'', JObj [(''confidence'', JNum (2 / 3))])]) \<rparr>))
     ''u1'' ''c1'' ''hello'' None
   = Inr \<lparr> answer = ''hi'', confidence = 2 / 3, tools_used = [''fetch_analytics''],
           content_type = Some ''analytics'',
           tool_outputs = Some [(''views'', JNum 15420)],
           metadata = Some [(''confidence'', JNum (2 / 3))],
           success = Some True, error = None \<rparr>"
proof -
  let ?meta = "[(''confidence'', JNum (2 / 3))]"
  let ?data = "[(''success'', JBool True), (''content'', JStr ''hi''),
          (''content_type'', JStr ''analytics''),
          (''tools_used'', JArr [JStr ''fetch_analytics'']),
          (''tool_outputs'', JObj [(''views'', JNum 15420)]),
          (''metadata'', JObj ?meta)]"
  let ?r = "\<lparr> status_code = 200, body_json = Some (JObj ?data) \<rparr>"
  have n: "\<And>out q. always out q = out"
    by (simp add: always_def)
  have h: "is_success ?r" "body_json ?r = Some (JObj ?data)"
    "truthy (dict_get ?data ''success'' (JBool False))"
    "dict_get ?data ''content'' JNull = json_of_opt_str (Some ''hi'')"
    "dict_get ?data ''metadata'' (JObj []) = JObj ?meta"
    "dict_get ?meta ''confidence'' (JNum 0) = JNum (2 / 3)"
    "(0::rat) \<le> 2 / 3" "(2::rat) / 3 \<le> 1"
    "dict_get ?data ''tools_used'' (JArr []) = JArr (map JStr [''fetch_analytics''])"
    "dict_get ?data ''content_type'' JNull = json_of_opt_str (Some ''analytics'')"
    "dict_get ?data ''tool_outputs'' JNull = json_of_opt_dict (Some [(''views'', JNum 15420)])"
    by (simp_all add: is_success_def dict_get_def)
  have m: "map_of ?data ''metadata'' = Some (JObj ?meta)"
    by simp
  show ?thesis
    using MCPClient_execute_success_mapping
      [of "always (Inr ?r)" "MCPClient_init Settings_defaults" "''u1''" "''c1''" "''hello''"
        None ?r ?data "Some ''hi''" ?meta "2 / 3" "[''fetch_analytics'']" "Some ''analytics''"
        "Some [(''views'', JNum 15420)]" lax_none, OF n h]
    by (simp only: m option.case)
qed

subsection \<open>Request ID middleware\<close>

lemma map_of_set_first: "map_of (set_first hs k v) k = Some v"
  by (induction hs k v rule: set_first.induct) simp_all

lemma headers_get_set: "headers_get (headers_set hs name v) name = Some v"
  by (simp add: headers_get_def headers_set_def map_of_set_first)

lemma filter_set_first:
  "filter (\<lambda>h. fst h \<noteq> k) (set_first hs k v) = filter (\<lambda>h. fst h \<noteq> k) hs"
  by (induction hs k v rule: set_first.induct) simp_all

lemma map_of_filter_other:
  "k' \<noteq> k \<Longrightarrow> map_of (filter (\<lambda>h. fst h \<noteq> k) hs) k' = map_of hs k'"
  by (induction hs) auto

lemma map_of_set_first_other:
  "k' \<noteq> k \<Longrightarrow> map_of (set_first hs k v) k' = map_of hs k'"
  by (induction hs k v rule: set_first.induct) (simp_all add: map_of_filter_other)

lemma headers_get_set_other:
  "lower name' \<noteq> lower name \<Longrightarrow>
     headers_get (headers_set hs name v) name' = headers_get hs name'"
  by (simp add: headers_get_def headers_set_def map_of_set_first_other)

text \<open>
  C8 as stated fails in two places. When MCP answers the top-video route's call with a
  404, the handler lets \<open>HTTPStatusError\<close> escape, \<open>call_next\<close> raises it, the
  middleware sets nothing, and the 500 the caller gets has no \<open>X-Request-ID\<close>, although
  the request supplied one. And a request whose \<open>X-Request-ID\<close> header is empty gets
  the fresh identifier back, not its own value.
\<close>

theorem dispatch_request_id_missing_or_not_echoed:
  "headers_get
     (out_headers (answer_of
        (dispatch ''5f0c1b1e-8d0a-4c55-9a43-0d2f6c1f7a10''
           \<lparr> in_method = ''GET'', in_path = ''/api/v1/channel/top-video'',
             in_headers = [(''x-request-id'', ''abc'')], in_request_id = None \<rparr>
           (route []
              (top_video_endpoint Settings_defaults
                 (always (Inr \<lparr> status_code = 404, body_json = None \<rparr>))
                 ''00000000-0000-0000-0000-000000000001'' ''7d'')))))
     ''X-Request-ID'' = None
   \<and> headers_get
     (out_headers (answer_of
        (dispatch ''5f0c1b1e-8d0a-4c55-9a43-0d2f6c1f7a10''
           \<lparr> in_method = ''GET'', in_path = ''/api/v1/user/status'',
             in_headers = [(''x-request-id'', '''')], in_request_id = None \<rparr>
           (route [(''content-length'', ''67''), (''content-type'', ''application/json'')]
              (get_user_status Settings_defaults
                 (always (Inl (RequestError ''connection refused''))) ''u1'')))))
     ''X-Request-ID'' = Some ''5f0c1b1e-8d0a-4c55-9a43-0d2f6c1f7a10''"
  by (simp add: dispatch_def request_id_of_def headers_get_def headers_set_def
      REQUEST_ID_HEADER_def lower_def lower_char_def route_def answer_of_def
      server_error_response_def top_video_endpoint_def get_top_video_def top_video_try_def
      always_def raise_for_status_def is_success_def get_user_status_def
      user_status_try_def)

text \<open>
  C8, amended. Every response that the stack under the middleware returns (a handler's
  result, or the framework's answer to an \<open>HTTPException\<close>) leaves the middleware with
  an \<open>X-Request-ID\<close> header and is otherwise unchanged: same status, same body, and
  every header of another name kept, in the same order and with the same value; the
  value of \<open>X-Request-ID\<close> is the inbound one when the request has one that is not
  empty, and the freshly generated identifier when the request has none or an empty
  one.
\<close>

theorem dispatch_sets_request_id:
  "(call_next (rq\<lparr>in_request_id := Some (request_id_of fresh rq)\<rparr>) = Inr resp \<longrightarrow>
      (\<exists>resp'. dispatch fresh rq call_next = Inr resp'
         \<and> headers_get (out_headers resp') REQUEST_ID_HEADER = Some (request_id_of fresh rq)
         \<and> out_status resp' = out_status resp \<and> out_body resp' = out_body resp
         \<and> filter (\<lambda>h. fst h \<noteq> lower REQUEST_ID_HEADER) (out_headers resp')
             = filter (\<lambda>h. fst h \<noteq> lower REQUEST_ID_HEADER) (out_headers resp)
         \<and> (\<forall>name. lower name \<noteq> lower REQUEST_ID_HEADER \<longrightarrow>
                headers_get (out_headers resp') name = headers_get (out_headers resp) name)))
   \<and> (headers_get (in_headers rq) REQUEST_ID_HEADER = Some v \<and> v \<noteq> [] \<longrightarrow>
        request_id_of fresh rq = v)
   \<and> (headers_get (in_headers rq) REQUEST_ID_HEADER = None
        \<or> headers_get (in_headers rq) REQUEST_ID_HEADER = Some [] \<longrightarrow>
        request_id_of fresh rq = fresh)"
proof (intro conjI impI)
  assume a: "call_next (rq\<lparr>in_request_id := Some (request_id_of fresh rq)\<rparr>) = Inr resp"
  let ?resp' = "resp\<lparr>out_headers :=
      headers_set (out_headers resp) REQUEST_ID_HEADER (request_id_of fresh rq)\<rparr>"
  from a have "dispatch fresh rq call_next = Inr ?resp'"
    by (simp add: dispatch_def Let_def)
  moreover have "headers_get (out_headers ?resp') REQUEST_ID_HEADER
                 = Some (request_id_of fresh rq)"
    by (simp add: headers_get_set)
  moreover have "out_status ?resp' = out_status resp \<and> out_body ?resp' = out_body resp"
    by simp
  moreover have "filter (\<lambda>h. fst h \<noteq> lower REQUEST_ID_HEADER) (out_headers ?resp')
             = filter (\<lambda>h. fst h \<noteq> lower REQUEST_ID_HEADER) (out_headers resp)"
    by (simp add: headers_set_def filter_set_first)
  moreover have "\<forall>name. lower name \<noteq> lower REQUEST_ID_HEADER \<longrightarrow>
                headers_get (out_headers ?resp') name = headers_get (out_headers resp) name"
    by (simp add: headers_get_set_other)
  ultimately show "\<exists>resp'. dispatch fresh rq call_next = Inr resp'
         \<and> headers_get (out_headers resp') REQUEST_ID_HEADER = Some (request_id_of fresh rq)
         \<and> out_status resp' = out_status resp \<and> out_body resp' = out_body resp
         \<and> filter (\<lambda>h. fst h \<noteq> lower REQUEST_ID_HEADER) (out_headers resp')
             = filter (\<lambda>h. fst h \<noteq> lower REQUEST_ID_HEADER) (out_headers resp)
         \<and> (\<forall>name. lower name \<noteq> lower REQUEST_ID_HEADER \<longrightarrow>
                headers_get (out_headers resp') name = headers_get (out_headers resp) name)"
    by blast
next
  assume "headers_get (in_headers rq) REQUEST_ID_HEADER = Some v \<and> v \<noteq> []"
  then show "request_id_of fresh rq = v"
    by (simp add: request_id_of_def)
next
  assume "headers_get (in_headers rq) REQUEST_ID_HEADER = None
        \<or> headers_get (in_headers rq) REQUEST_ID_HEADER = Some []"
  then show "request_id_of fresh rq = fresh"
    by (auto simp: request_id_of_def)
qed

theorem dispatch_sets_request_id_witness:
  "headers_get
     (out_headers (answer_of
        (dispatch ''5f0c1b1e-8d0a-4c55-9a43-0d2f6c1f7a10''
           \<lparr> in_method = ''GET'', in_path = ''/api/v1/channel/stats'',
             in_headers = [(''x-request-id'', ''abc'')], in_request_id = None \<rparr>
           (route [(''content-length'', ''47''), (''content-type'', ''application/json'')]
              (channel_stats_endpoint Settings_defaults
                 (always (Inr \<lparr> status_code = 404, body_json = None \<rparr>))
                 ''00000000-0000-0000-0000-000000000001'' ''7d'')))))
     ''X-Request-ID'' = Some ''abc''
   \<and> headers_get
     (out_headers (answer_of
        (dispatch ''5f0c1b1e-8d0a-4c55-9a43-0d2f6c1f7a10''
           \<lparr> in_method = ''GET'', in_path = ''/api/v1/channel/stats'',
             in_headers = [(''x-request-id'', ''abc'')], in_request_id = None \<rparr>
           (route [(''content-length'', ''47''), (''content-type'', ''application/json'')]
              (channel_stats_endpoint Settings_defaults
                 (always (Inr \<lparr> status_code = 404, body_json = None \<rparr>))
                 ''00000000-0000-0000-0000-000000000001'' ''7d'')))))
     ''Content-Type'' = Some ''application/json''"
proof -
  let ?rq = "\<lparr> in_method = ''GET'', in_path = ''/api/v1/channel/stats'',
             in_headers = [(''x-request-id'', ''abc'')], in_request_id = None \<rparr>"
  let ?hs = "[(''content-length'', ''47''), (''content-type'', ''application/json'')]"
  let ?next = "route ?hs (channel_stats_endpoint Settings_defaults
              (always (Inr \<lparr> status_code = 404, body_json = None \<rparr>))
              ''00000000-0000-0000-0000-000000000001'' ''7d'')"
  let ?resp = "\<lparr> out_status = 404, out_headers = ?hs,
           out_body = Detail [Lit ''No connected YouTube channel found''] \<rparr>"
  let ?fresh = "''5f0c1b1e-8d0a-4c55-9a43-0d2f6c1f7a10''"
  have g: "headers_get (in_headers ?rq) REQUEST_ID_HEADER = Some ''abc'' \<and> ''abc'' \<noteq> []"
    by (simp add: headers_get_def REQUEST_ID_HEADER_def lower_def lower_char_def)
  have n: "?next (?rq\<lparr>in_request_id := Some (request_id_of ?fresh ?rq)\<rparr>) = Inr ?resp"
    by (simp add: route_def channel_stats_endpoint_def get_channel_stats_def
        channel_stats_try_def always_def)
  have l: "lower ''Content-Type'' \<noteq> lower REQUEST_ID_HEADER"
    by (simp add: REQUEST_ID_HEADER_def lower_def lower_char_def)
  have c: "headers_get (out_headers ?resp) ''Content-Type'' = Some ''application/json''"
    by (simp add: headers_get_def lower_def lower_char_def)
  note th = dispatch_sets_request_id [where call_next = ?next and rq = ?rq and fresh = ?fresh
      and resp = ?resp and v = "''abc''"]
  from th g have rid: "request_id_of ?fresh ?rq = ''abc''"
    by blast
  from th n obtain resp' where d: "dispatch ?fresh ?rq ?next = Inr resp'"
    and i: "headers_get (out_headers resp') REQUEST_ID_HEADER = Some (request_id_of ?fresh ?rq)"
    and o: "\<forall>name. lower name \<noteq> lower REQUEST_ID_HEADER \<longrightarrow>
              headers_get (out_headers resp') name = headers_get (out_headers ?resp) name"
    by blast
  from o l c have "headers_get (out_headers resp') ''Content-Type'' = Some ''application/json''"
    by simp
  with d i rid show ?thesis
    by (simp add: answer_of_def REQUEST_ID_HEADER_def)
qed

subsection \<open>OAuth state\<close>

lemma uuid_UUID_raises: "uuid_UUID pyint s = Inl e \<Longrightarrow> \<exists>m. e = ValueError m"
  by (auto simp: uuid_UUID_def Let_def split: if_splits option.splits)

lemma split_state_user:
  "CHR '':'' \<notin> set u \<Longrightarrow> takeWhile (\<lambda>c. c \<noteq> CHR '':'') (u @ CHR '':'' # t) = u"
  by (induction u) auto

lemma split_state_token:
  "CHR '':'' \<notin> set u \<Longrightarrow> tl (dropWhile (\<lambda>c. c \<noteq> CHR '':'') (u @ CHR '':'' # t)) = t"
  by (induction u) auto

lemma validate_state_with_token:
  assumes "CHR '':'' \<notin> set u" and "uuid_UUID pyint u = Inr x"
  shows "validate_state pyint (u @ CHR '':'' # t) pending =
           (case pending t of
              None \<Rightarrow> (Inl (ValueError [Lit ''Unknown or expired state token'']), pending)
            | Some stored \<Rightarrow>
                if stored \<noteq> u
                then (Inl (ValueError [Lit ''State token user_id mismatch'']), pending(t := None))
                else (Inr x, pending(t := None)))"
  using assms
  by (simp add: validate_state_def split_state_user split_state_token)

text \<open>
  C9. A callback whose \<open>state\<close> has no colon is checked as a bare user id: the store is
  neither read nor changed. If the value parses as a UUID, validation gives that user
  whatever the store holds, and the callback goes on to the token exchange for that
  user; if it does not parse, validation raises \<open>ValueError\<close> and the callback ends
  there with the error redirect, whatever the later steps would have done.
\<close>

theorem validate_state_legacy_bare_user_id:
  assumes "CHR '':'' \<notin> set state"
  shows
  "(uuid_UUID pyint state = Inr u \<longrightarrow>
      validate_state pyint state pending = (Inr u, pending)
      \<and> youtube_auth_callback pyint env code state pending
          = (callback_connect env code u, pending))
   \<and> (uuid_UUID pyint state = Inl e \<longrightarrow>
      validate_state pyint state pending = (Inl e, pending)
      \<and> (\<exists>m. e = ValueError m
           \<and> youtube_auth_callback pyint env code state pending
               = (Inr (Redirect_error m), pending)))"
proof (intro conjI impI)
  assume "uuid_UUID pyint state = Inr u"
  with assms show "validate_state pyint state pending = (Inr u, pending)"
    by (simp add: validate_state_def)
  then show "youtube_auth_callback pyint env code state pending
          = (callback_connect env code u, pending)"
    by (simp add: youtube_auth_callback_def)
next
  assume a: "uuid_UUID pyint state = Inl e"
  with assms show v: "validate_state pyint state pending = (Inl e, pending)"
    by (simp add: validate_state_def)
  from a obtain m where "e = ValueError m"
    using uuid_UUID_raises by blast
  with v show "\<exists>m. e = ValueError m
           \<and> youtube_auth_callback pyint env code state pending
               = (Inr (Redirect_error m), pending)"
    by (simp add: youtube_auth_callback_def)
qed

lemma uuid_UUID_placeholder:
  "uuid_UUID hex_int ''00000000-0000-0000-0000-000000000001'' = Inr 1"
  by (simp add: uuid_UUID_def strip_chars_def hex_int_def hex_value_def)

lemma uuid_UUID_not_a_uuid:
  "uuid_UUID hex_int ''not-a-uuid''
   = Inl (ValueError [Lit ''badly formed hexadecimal UUID string''])"
  by (simp add: uuid_UUID_def strip_chars_def)
theorem validate_state_legacy_bare_user_id_witness:
  "validate_state hex_int ''00000000-0000-0000-0000-000000000001'' Map.empty
     = (Inr 1, Map.empty)
   \<and> youtube_auth_callback hex_int offline_steps ''code''
       ''00000000-0000-0000-0000-000000000001'' Map.empty
     = (Inr (Redirect_error [Lit ''Token exchange failed'']), Map.empty)
   \<and> youtube_auth_callback hex_int offline_steps ''code'' ''not-a-uuid'' Map.empty
     = (Inr (Redirect_error [Lit ''badly formed hexadecimal UUID string'']), Map.empty)"
proof -
  have a: "CHR '':'' \<notin> set ''00000000-0000-0000-0000-000000000001''"
    and b: "CHR '':'' \<notin> set ''not-a-uuid''"
    by simp_all
  have c: "callback_connect offline_steps ''code'' 1
           = Inr (Redirect_error [Lit ''Token exchange failed''])"
    by (simp add: callback_connect_def offline_steps_def)
  from validate_state_legacy_bare_user_id [OF a, of hex_int 1 Map.empty offline_steps "''code''"]
    validate_state_legacy_bare_user_id [OF b, of hex_int _ Map.empty offline_steps "''code''"
      "ValueError [Lit ''badly formed hexadecimal UUID string'']"]
    uuid_UUID_placeholder uuid_UUID_not_a_uuid c
  show ?thesis
    by simp
qed

text \<open>
  C10. Redeeming a state \<open>u:t\<close>, with \<open>u\<close> a user id that parses as a UUID (written
  without a colon), while the store holds \<open>t\<close> for a different user id: the call raises
  the mismatch error and the store it leaves no longer holds \<open>t\<close>. Any later redemption
  of a state \<open>v:t\<close> in that store fails: with "Unknown or expired state token" for every
  \<open>v\<close> that parses as a UUID, the rightful owner's included, and already at the UUID
  check for the others.
\<close>

theorem validate_state_mismatch_consumes_token:
  assumes "CHR '':'' \<notin> set u" and "uuid_UUID pyint u = Inr x"
    and "pending t = Some w" and "w \<noteq> u"
  shows
  "validate_state pyint (u @ '':'' @ t) pending
     = (Inl (ValueError [Lit ''State token user_id mismatch'']), pending(t := None))
   \<and> (pending(t := None)) t = None
   \<and> (\<forall>v y. CHR '':'' \<notin> set v \<and> uuid_UUID pyint v = Inr y \<longrightarrow>
         validate_state pyint (v @ '':'' @ t) (pending(t := None))
           = (Inl (ValueError [Lit ''Unknown or expired state token'']), pending(t := None)))
   \<and> (\<forall>v. CHR '':'' \<notin> set v \<longrightarrow>
         (\<exists>e. validate_state pyint (v @ '':'' @ t) (pending(t := None))
                = (Inl e, pending(t := None))))"
proof (intro conjI allI impI)
  from assms show "validate_state pyint (u @ '':'' @ t) pending
     = (Inl (ValueError [Lit ''State token user_id mismatch'']), pending(t := None))"
    by (simp add: validate_state_with_token)
next
  show "(pending(t := None)) t = None"
    by simp
next
  fix v y
  assume "CHR '':'' \<notin> set v \<and> uuid_UUID pyint v = Inr y"
  then show "validate_state pyint (v @ '':'' @ t) (pending(t := None))
           = (Inl (ValueError [Lit ''Unknown or expired state token'']), pending(t := None))"
    by (simp add: validate_state_with_token)
next
  fix v
  assume c: "CHR '':'' \<notin> set v"
  show "\<exists>e. validate_state pyint (v @ '':'' @ t) (pending(t := None))
                = (Inl e, pending(t := None))"
  proof (cases "uuid_UUID pyint v")
    case (Inl e)
    with c show ?thesis
      by (simp add: validate_state_def split_state_user split_state_token)
  next
    case (Inr y)
    with c show ?thesis
      by (simp add: validate_state_with_token)
  qed
qed

lemma uuid_UUID_second_user:
  "uuid_UUID hex_int ''00000000-0000-0000-0000-000000000002'' = Inr 2"
  by (simp add: uuid_UUID_def strip_chars_def hex_int_def hex_value_def)

theorem validate_state_mismatch_consumes_token_witness:
  "validate_state hex_int ''00000000-0000-0000-0000-000000000001:Drmhze6EPcv0fN_81Bj-nA''
     [''Drmhze6EPcv0fN_81Bj-nA'' \<mapsto> ''00000000-0000-0000-0000-000000000002'']
     = (Inl (ValueError [Lit ''State token user_id mismatch'']), Map.empty)
   \<and> validate_state hex_int ''00000000-0000-0000-0000-000000000002:Drmhze6EPcv0fN_81Bj-nA''
       Map.empty
     = (Inl (ValueError [Lit ''Unknown or expired state token'']), Map.empty)"
proof -
  let ?u = "''00000000-0000-0000-0000-000000000001''"
  let ?w = "''00000000-0000-0000-0000-000000000002''"
  let ?t = "''Drmhze6EPcv0fN_81Bj-nA''"
  let ?p = "[?t \<mapsto> ?w]"
  have a: "CHR '':'' \<notin> set ?u" and b: "?p ?t = Some ?w" and c: "?w \<noteq> ?u"
    and d: "CHR '':'' \<notin> set ?w"
    by simp_all
  have e: "?p(?t := None) = Map.empty"
    by simp
  from validate_state_mismatch_consumes_token
    [where pending = ?p and t = ?t and u = ?u and w = ?w and pyint = hex_int and x = 1,
      OF a uuid_UUID_placeholder b c]
  have m: "validate_state hex_int (?u @ '':'' @ ?t) ?p
          = (Inl (ValueError [Lit ''State token user_id mismatch'']), ?p(?t := None))"
    and all: "\<forall>v y. CHR '':'' \<notin> set v \<and> uuid_UUID hex_int v = Inr y \<longrightarrow>
         validate_state hex_int (v @ '':'' @ ?t) (?p(?t := None))
           = (Inl (ValueError [Lit ''Unknown or expired state token'']), ?p(?t := None))"
    by blast+
  from all d uuid_UUID_second_user
  have "validate_state hex_int (?w @ '':'' @ ?t) (?p(?t := None))
           = (Inl (ValueError [Lit ''Unknown or expired state token'']), ?p(?t := None))"
    by blast
  with m e show ?thesis
    by simp
qed

subsection \<open>Starting the OAuth flow\<close>

lemma quote_plus_append: "quote_plus (a @ b) = quote_plus a @ quote_plus b"
  by (simp add: quote_plus_def)

lemma quote_plus_unreserved: "\<forall>c \<in> set t. is_unreserved c \<Longrightarrow> quote_plus t = t"
  by (induction t) (simp_all add: quote_plus_def quote_plus_char_def)

lemma quote_plus_colon: "quote_plus '':'' = ''%3A''"
  by (simp add: quote_plus_def quote_plus_char_def is_unreserved_def pct_def)

lemma quote_plus_state: "quote_plus ''state'' = ''state''"
  by (simp add: quote_plus_def quote_plus_char_def is_unreserved_def)

lemma join_snoc: "xs \<noteq> [] \<Longrightarrow> join sep (xs @ [y]) = join sep xs @ sep @ y"
  by (induction sep xs rule: join.induct) simp_all

lemma urlencode_snoc:
  "ps \<noteq> [] \<Longrightarrow> urlencode (ps @ [(k, v)]) = urlencode ps @ ''&'' @ quote_plus k @ ''='' @ quote_plus v"
  by (simp add: urlencode_def join_snoc)

lemma auth_url_state_suffix:
  assumes "is_urlsafe_token t"
  shows "\<exists>pre. google_auth_url st @ ''?'' @ urlencode (auth_params st (u @ '':'' @ t))
               = pre @ ''&state='' @ quote_plus u @ ''%3A'' @ t"
proof -
  let ?front = "[(''client_id'', google_client_id st),
      (''redirect_uri'', google_redirect_uri st),
      (''response_type'', ''code''),
      (''scope'', join '' '' (map strip (split_on CHR '','' (youtube_scopes st)))),
      (''access_type'', ''offline''),
      (''prompt'', ''consent'')]"
  from assms have "\<forall>c \<in> set t. is_unreserved c"
    by (simp add: is_urlsafe_token_def)
  then have q: "quote_plus (u @ '':'' @ t) = quote_plus u @ ''%3A'' @ t"
    using quote_plus_colon by (simp only: quote_plus_append quote_plus_unreserved)
  have "auth_params st (u @ '':'' @ t) = ?front @ [(''state'', u @ '':'' @ t)]"
    by (simp add: auth_params_def)
  then have "urlencode (auth_params st (u @ '':'' @ t))
             = urlencode ?front @ ''&'' @ quote_plus ''state'' @ ''='' @ quote_plus (u @ '':'' @ t)"
    by (simp only: urlencode_snoc [of ?front] list.simps not_False_eq_True)
  with q have "google_auth_url st @ ''?'' @ urlencode (auth_params st (u @ '':'' @ t))
               = (google_auth_url st @ ''?'' @ urlencode ?front) @ ''&state='' @ quote_plus u @ ''%3A'' @ t"
    by (simp add: quote_plus_state)
  then show ?thesis
    by blast
qed

text \<open>
  C2 as stated fails for a UUID written as a URN. \<open>uuid.UUID\<close>, the only check the
  start route makes of \<open>user_id\<close>, accepts
  \<open>urn:uuid:00000000-0000-0000-0000-000000000001\<close>: the route answers 200 with a URL
  whose \<open>state\<close> is that string, a colon and the token, and stores the token for it.
  Redeeming that state fails at the first attempt: it is split at its first colon, the
  user part is \<open>urn\<close>, and \<open>uuid.UUID\<close> raises before the store is read, so the
  token stays in the store.
\<close>

theorem youtube_auth_start_urn_state_not_redeemable:
  "youtube_auth_start hex_int ''Drmhze6EPcv0fN_81Bj-nA''
     (Settings_defaults\<lparr>google_client_id := ''my-client''\<rparr>) Map.empty
     ''urn:uuid:00000000-0000-0000-0000-000000000001''
   = (Inr ''https://accounts.google.com/o/oauth2/v2/auth?client_id=my-client&redirect_uri=http%3A%2F%2Flocalhost%3A3000%2Fauth%2Fyoutube%2Fcallback&response_type=code&scope=https%3A%2F%2Fwww.googleapis.com%2Fauth%2Fyoutube.readonly+https%3A%2F%2Fwww.googleapis.com%2Fauth%2Fyt-analytics.readonly&access_type=offline&prompt=consent&state=urn%3Auuid%3A00000000-0000-0000-0000-000000000001%3ADrmhze6EPcv0fN_81Bj-nA'',
      [''Drmhze6EPcv0fN_81Bj-nA'' \<mapsto> ''urn:uuid:00000000-0000-0000-0000-000000000001''])
   \<and> validate_state hex_int
       ''urn:uuid:00000000-0000-0000-0000-000000000001:Drmhze6EPcv0fN_81Bj-nA''
       [''Drmhze6EPcv0fN_81Bj-nA'' \<mapsto> ''urn:uuid:00000000-0000-0000-0000-000000000001'']
     = (Inl (ValueError [Lit ''badly formed hexadecimal UUID string'']),
        [''Drmhze6EPcv0fN_81Bj-nA'' \<mapsto> ''urn:uuid:00000000-0000-0000-0000-000000000001''])"
proof -
  let ?st = "Settings_defaults\<lparr>google_client_id := ''my-client''\<rparr>"
  let ?u = "''urn:uuid:00000000-0000-0000-0000-000000000001''"
  let ?t = "''Drmhze6EPcv0fN_81Bj-nA''"
  have p: "uuid_UUID hex_int ?u = Inr 1"
    by (simp add: uuid_UUID_def strip_chars_def hex_int_def hex_value_def)
  have url: "google_auth_url ?st @ ''?'' @ urlencode (auth_params ?st (?u @ '':'' @ ?t))
   = ''https://accounts.google.com/o/oauth2/v2/auth?client_id=my-client&redirect_uri=http%3A%2F%2Flocalhost%3A3000%2Fauth%2Fyoutube%2Fcallback&response_type=code&scope=https%3A%2F%2Fwww.googleapis.com%2Fauth%2Fyoutube.readonly+https%3A%2F%2Fwww.googleapis.com%2Fauth%2Fyt-analytics.readonly&access_type=offline&prompt=consent&state=urn%3Auuid%3A00000000-0000-0000-0000-000000000001%3ADrmhze6EPcv0fN_81Bj-nA''"
    by code_simp
  have c: "google_client_id ?st \<noteq> [] \<and> google_redirect_uri ?st \<noteq> []"
    by (simp add: Settings_defaults_def)
  have "youtube_auth_start hex_int ?t ?st Map.empty ?u
        = (Inr (google_auth_url ?st @ ''?'' @ urlencode (auth_params ?st (?u @ '':'' @ ?t))),
           [?t \<mapsto> ?u])"
    using c p by (simp add: youtube_auth_start_def build_google_auth_url_def)
  then have s: "youtube_auth_start hex_int ?t ?st Map.empty ?u
        = (Inr ''https://accounts.google.com/o/oauth2/v2/auth?client_id=my-client&redirect_uri=http%3A%2F%2Flocalhost%3A3000%2Fauth%2Fyoutube%2Fcallback&response_type=code&scope=https%3A%2F%2Fwww.googleapis.com%2Fauth%2Fyoutube.readonly+https%3A%2F%2Fwww.googleapis.com%2Fauth%2Fyt-analytics.readonly&access_type=offline&prompt=consent&state=urn%3Auuid%3A00000000-0000-0000-0000-000000000001%3ADrmhze6EPcv0fN_81Bj-nA'',
           [?t \<mapsto> ?u])"
    by (simp only: url)
  have "uuid_UUID hex_int ''urn''
        = Inl (ValueError [Lit ''badly formed hexadecimal UUID string''])"
    by (simp add: uuid_UUID_def strip_chars_def)
  then have v: "validate_state hex_int
       ''urn:uuid:00000000-0000-0000-0000-000000000001:Drmhze6EPcv0fN_81Bj-nA''
       [?t \<mapsto> ?u]
     = (Inl (ValueError [Lit ''badly formed hexadecimal UUID string'']), [?t \<mapsto> ?u])"
    by (simp add: validate_state_def)
  from s v show ?thesis
    by (rule conjI)
qed

text \<open>
  C2, amended. With the Google client id and redirect URI configured, for a user id
  \<open>u\<close> that parses as a UUID and is written without a colon (as every UUID in the
  usual 8-4-4-4-12 form is), and the token \<open>t\<close> that \<open>secrets.token_urlsafe\<close> hands out:
  \<open>GET /auth/youtube/start?user_id=u\<close> returns (status 200) the authorization URL built
  from the parameters whose \<open>state\<close> is \<open>u:t\<close>, so the URL ends in the encoded
  \<open>state=u%3At\<close>, and stores \<open>t\<close> for \<open>u\<close>. Redeeming \<open>u:t\<close> in that store succeeds
  and gives the UUID of \<open>u\<close>; redeeming it again fails with "Unknown or expired state
  token".
\<close>

theorem youtube_auth_start_state_redeemed_once:
  assumes "google_client_id st \<noteq> []" and "google_redirect_uri st \<noteq> []"
    and "CHR '':'' \<notin> set u" and "uuid_UUID pyint u = Inr x"
    and "is_urlsafe_token t"
  shows
  "youtube_auth_start pyint t st pending u
     = (Inr (google_auth_url st @ ''?'' @ urlencode (auth_params st (u @ '':'' @ t))),
        pending(t \<mapsto> u))
   \<and> status_to_caller (fst (youtube_auth_start pyint t st pending u)) = 200
   \<and> map_of (auth_params st (u @ '':'' @ t)) ''state'' = Some (u @ '':'' @ t)
   \<and> (\<exists>pre. google_auth_url st @ ''?'' @ urlencode (auth_params st (u @ '':'' @ t))
              = pre @ ''&state='' @ quote_plus u @ ''%3A'' @ t)
   \<and> t \<noteq> []
   \<and> validate_state pyint (u @ '':'' @ t) (pending(t \<mapsto> u)) = (Inr x, pending(t := None))
   \<and> validate_state pyint (u @ '':'' @ t) (pending(t := None))
       = (Inl (ValueError [Lit ''Unknown or expired state token'']), pending(t := None))"
proof (intro conjI)
  from assms show s: "youtube_auth_start pyint t st pending u
     = (Inr (google_auth_url st @ ''?'' @ urlencode (auth_params st (u @ '':'' @ t))),
        pending(t \<mapsto> u))"
    by (simp add: youtube_auth_start_def build_google_auth_url_def)
  then show "status_to_caller (fst (youtube_auth_start pyint t st pending u)) = 200"
    by simp
  show "map_of (auth_params st (u @ '':'' @ t)) ''state'' = Some (u @ '':'' @ t)"
    by (simp add: auth_params_def)
  from assms(5) show "\<exists>pre. google_auth_url st @ ''?'' @ urlencode (auth_params st (u @ '':'' @ t))
              = pre @ ''&state='' @ quote_plus u @ ''%3A'' @ t"
    by (rule auth_url_state_suffix)
  from assms(5) show "t \<noteq> []"
    by (simp add: is_urlsafe_token_def)
  from assms(3,4) show "validate_state pyint (u @ '':'' @ t) (pending(t \<mapsto> u))
                        = (Inr x, pending(t := None))"
    by (simp add: validate_state_with_token)
  from assms(3,4) show "validate_state pyint (u @ '':'' @ t) (pending(t := None))
       = (Inl (ValueError [Lit ''Unknown or expired state token'']), pending(t := None))"
    by (simp add: validate_state_with_token)
qed
lemma auth_url_example:
  "google_auth_url (Settings_defaults\<lparr>google_client_id := ''my-client''\<rparr>) @ ''?''
     @ urlencode (auth_params (Settings_defaults\<lparr>google_client_id := ''my-client''\<rparr>)
         (''00000000-0000-0000-0000-000000000001'' @ '':'' @ ''Drmhze6EPcv0fN_81Bj-nA''))
   = ''https://accounts.google.com/o/oauth2/v2/auth?client_id=my-client&redirect_uri=http%3A%2F%2Flocalhost%3A3000%2Fauth%2Fyoutube%2Fcallback&response_type=code&scope=https%3A%2F%2Fwww.googleapis.com%2Fauth%2Fyoutube.readonly+https%3A%2F%2Fwww.googleapis.com%2Fauth%2Fyt-analytics.readonly&access_type=offline&prompt=consent&state=00000000-0000-0000-0000-000000000001%3ADrmhze6EPcv0fN_81Bj-nA''"
  by code_simp

theorem youtube_auth_start_state_redeemed_once_witness:
  "youtube_auth_start hex_int ''Drmhze6EPcv0fN_81Bj-nA''
     (Settings_defaults\<lparr>google_client_id := ''my-client''\<rparr>) Map.empty
     ''00000000-0000-0000-0000-000000000001''
   = (Inr ''https://accounts.google.com/o/oauth2/v2/auth?client_id=my-client&redirect_uri=http%3A%2F%2Flocalhost%3A3000%2Fauth%2Fyoutube%2Fcallback&response_type=code&scope=https%3A%2F%2Fwww.googleapis.com%2Fauth%2Fyoutube.readonly+https%3A%2F%2Fwww.googleapis.com%2Fauth%2Fyt-analytics.readonly&access_type=offline&prompt=consent&state=00000000-0000-0000-0000-000000000001%3ADrmhze6EPcv0fN_81Bj-nA'',
      [''Drmhze6EPcv0fN_81Bj-nA'' \<mapsto> ''00000000-0000-0000-0000-000000000001''])
   \<and> validate_state hex_int ''00000000-0000-0000-0000-000000000001:Drmhze6EPcv0fN_81Bj-nA''
       [''Drmhze6EPcv0fN_81Bj-nA'' \<mapsto> ''00000000-0000-0000-0000-000000000001'']
     = (Inr 1, Map.empty)
   \<and> validate_state hex_int ''00000000-0000-0000-0000-000000000001:Drmhze6EPcv0fN_81Bj-nA''
       Map.empty
     = (Inl (ValueError [Lit ''Unknown or expired state token'']), Map.empty)"
proof -
  let ?st = "Settings_defaults\<lparr>google_client_id := ''my-client''\<rparr>"
  let ?u = "''00000000-0000-0000-0000-000000000001''"
  let ?t = "''Drmhze6EPcv0fN_81Bj-nA''"
  have a: "google_client_id ?st \<noteq> []" and b: "google_redirect_uri ?st \<noteq> []"
    by (simp_all add: Settings_defaults_def)
  have c: "CHR '':'' \<notin> set ?u"
    by simp
  have d: "is_urlsafe_token ?t"
    by (simp add: is_urlsafe_token_def is_unreserved_def)
  have e: "Map.empty(?t := None) = (Map.empty :: pending_states)"
    by simp
  note th = youtube_auth_start_state_redeemed_once
    [where st = ?st and u = ?u and t = ?t and pyint = hex_int and x = 1
      and pending = Map.empty, OF a b c uuid_UUID_placeholder d]
  from th have
    s: "youtube_auth_start hex_int ?t ?st Map.empty ?u
         = (Inr (google_auth_url ?st @ ''?'' @ urlencode (auth_params ?st (?u @ '':'' @ ?t))),
            [?t \<mapsto> ?u])"
    and v1: "validate_state hex_int (?u @ '':'' @ ?t) [?t \<mapsto> ?u]
             = (Inr 1, Map.empty(?t := None))"
    and v2: "validate_state hex_int (?u @ '':'' @ ?t) (Map.empty(?t := None))
             = (Inl (ValueError [Lit ''Unknown or expired state token'']), Map.empty(?t := None))"
    by blast+
  from s auth_url_example v1 v2 show ?thesis
    by (simp only: e append.simps)
qed

subsection \<open>The usual text form of a UUID\<close>

lemma is_hex_char_plain:
  "is_hex_char c \<Longrightarrow>
     c \<noteq> CHR '':'' \<and> c \<noteq> CHR ''-'' \<and> c \<noteq> CHR ''{'' \<and> c \<noteq> CHR ''}'' \<and> is_unreserved c"
  by (auto simp: is_hex_char_def hex_value_def is_unreserved_def Let_def split: if_splits)
lemma py_replace_absent:
  "c0 \<in> set old \<Longrightarrow> c0 \<notin> set s \<Longrightarrow> py_replace old new s = s"
proof (induction s)
  case Nil
  then show ?case by simp
next
  case (Cons c cs)
  have "take (length old) (c # cs) \<noteq> old"
  proof
    assume "take (length old) (c # cs) = old"
    then have "set old \<subseteq> set (c # cs)"
      by (metis set_take_subset)
    with Cons.prems show False
      by auto
  qed
  with Cons show ?case
    by simp
qed
lemma strip_chars_absent:
  "\<forall>c \<in> set s. c \<notin> set chars \<Longrightarrow> strip_chars chars s = s"
proof -
  assume a: "\<forall>c \<in> set s. c \<notin> set chars"
  have d: "\<And>xs. \<forall>c \<in> set xs. c \<notin> set chars \<Longrightarrow> dropWhile (\<lambda>c. c \<in> set chars) xs = xs"
    by (case_tac xs) auto
  from a have "dropWhile (\<lambda>c. c \<in> set chars) s = s"
    by (rule d)
  moreover from a have "dropWhile (\<lambda>c. c \<in> set chars) (rev s) = rev s"
    by (intro d) simp
  ultimately show ?thesis
    by (simp add: strip_chars_def)
qed
lemma hex_digits_bounds:
  "list_all is_hex_char s \<Longrightarrow> 0 \<le> acc \<Longrightarrow>
     \<exists>v. hex_digits acc s = Some v \<and> acc * 16 ^ length s \<le> v \<and> v < (acc + 1) * 16 ^ length s"
proof (induction s arbitrary: acc)
  case Nil
  then show ?case by simp
next
  case (Cons c cs)
  from Cons.prems obtain d where d: "hex_value c = Some d" and r: "0 \<le> d" "d < 16"
    by (auto simp: is_hex_char_def hex_value_def Let_def split: if_splits)
  from Cons.prems r have "list_all is_hex_char cs" and "0 \<le> 16 * acc + d"
    by simp_all
  from Cons.IH [OF this] obtain v where v: "hex_digits (16 * acc + d) cs = Some v"
    and lo: "(16 * acc + d) * 16 ^ length cs \<le> v"
    and hi: "v < (16 * acc + d + 1) * 16 ^ length cs"
    by blast
  from r have A: "acc * 16 ^ length (c # cs) \<le> (16 * acc + d) * 16 ^ length cs"
    by simp
  from r have B: "(16 * acc + d + 1) * 16 ^ length cs \<le> (acc + 1) * 16 ^ length (c # cs)"
    by simp
  from A lo have "acc * 16 ^ length (c # cs) \<le> v"
    by (rule order_trans)
  moreover from hi B have "v < (acc + 1) * 16 ^ length (c # cs)"
    by (rule less_le_trans)
  ultimately show ?case
    using v d by simp
qed
lemma canonical_uuid_parts:
  assumes "canonical_uuid s"
  shows "\<exists>a b c d e. s = a @ CHR ''-'' # b @ CHR ''-'' # c @ CHR ''-'' # d @ CHR ''-'' # e
           \<and> length (a @ b @ c @ d @ e) = 32 \<and> list_all is_hex_char (a @ b @ c @ d @ e)"
proof -
  from assms have len: "length s = 36"
    by (simp add: canonical_uuid_def)
  define a where "a = take 8 s"
  define b where "b = take 4 (drop 9 s)"
  define c where "c = take 4 (drop 14 s)"
  define d where "d = take 4 (drop 19 s)"
  define e where "e = drop 24 s"
  from assms have hy: "s ! 8 = CHR ''-''" "s ! 13 = CHR ''-''" "s ! 18 = CHR ''-''"
    "s ! 23 = CHR ''-''"
    by (simp_all add: canonical_uuid_def)
  have "take 8 s @ s ! 8 # drop (Suc 8) s = s"
    by (rule id_take_nth_drop [symmetric]) (simp add: len)
  with hy have t1: "a @ CHR ''-'' # drop 9 s = s"
    by (simp add: a_def)
  have "take 4 (drop 9 s) @ drop 9 s ! 4 # drop (Suc 4) (drop 9 s) = drop 9 s"
    by (rule id_take_nth_drop [symmetric]) (simp add: len)
  with hy len have t2: "b @ CHR ''-'' # drop 14 s = drop 9 s"
    by (simp add: b_def)
  have "take 4 (drop 14 s) @ drop 14 s ! 4 # drop (Suc 4) (drop 14 s) = drop 14 s"
    by (rule id_take_nth_drop [symmetric]) (simp add: len)
  with hy len have t3: "c @ CHR ''-'' # drop 19 s = drop 14 s"
    by (simp add: c_def)
  have "take 4 (drop 19 s) @ drop 19 s ! 4 # drop (Suc 4) (drop 19 s) = drop 19 s"
    by (rule id_take_nth_drop [symmetric]) (simp add: len)
  with hy len have t4: "d @ CHR ''-'' # e = drop 19 s"
    by (simp add: d_def e_def)
  have "a @ CHR ''-'' # b @ CHR ''-'' # c @ CHR ''-'' # d @ CHR ''-'' # e = s"
    by (simp only: t4 t3 t2 t1)
  then have eq: "s = a @ CHR ''-'' # b @ CHR ''-'' # c @ CHR ''-'' # d @ CHR ''-'' # e"
    by (rule sym)
  from len have "length (a @ b @ c @ d @ e) = 32"
    by (simp add: a_def b_def c_def d_def e_def)
  moreover from assms have "list_all is_hex_char (a @ b @ c @ d @ e)"
    by (simp add: canonical_uuid_def a_def b_def c_def d_def e_def)
  ultimately show ?thesis
    using eq by blast
qed

text \<open>
  Every UUID in the usual text form meets what C2 asks of \<open>u\<close>: it has no colon,
  \<open>uuid.UUID\<close> accepts it, and URL encoding leaves it as it is.
\<close>

lemma canonical_uuid_accepted:
  assumes "canonical_uuid s"
  shows "CHR '':'' \<notin> set s \<and> (\<exists>x. uuid_UUID hex_int s = Inr x) \<and> quote_plus s = s"
proof -
  from assms obtain a b c d e
    where eq: "s = a @ CHR ''-'' # b @ CHR ''-'' # c @ CHR ''-'' # d @ CHR ''-'' # e"
      and len: "length (a @ b @ c @ d @ e) = 32"
      and hex: "list_all is_hex_char (a @ b @ c @ d @ e)"
    using canonical_uuid_parts by blast
  define h where "h = a @ b @ c @ d @ e"
  from len have lenh: "length h = 32"
    by (simp only: h_def)
  from hex have hexh: "list_all is_hex_char h"
    by (simp only: h_def)
  have plain: "x \<noteq> CHR '':'' \<and> x \<noteq> CHR ''-'' \<and> x \<noteq> CHR ''{'' \<and> x \<noteq> CHR ''}''
      \<and> is_unreserved x" if "x \<in> set h" for x
  proof -
    from that hexh have "is_hex_char x"
      by (simp add: list_all_iff)
    then show ?thesis
      by (rule is_hex_char_plain)
  qed
  have chars: "set s = insert CHR ''-'' (set h)"
    unfolding h_def by (subst eq) auto
  have nocolon: "CHR '':'' \<notin> set s"
    using plain chars by auto
  have r1: "py_replace ''urn:'' [] s = s"
    by (rule py_replace_absent [of "CHR '':''"]) (simp, rule nocolon)
  have r2: "py_replace ''uuid:'' [] s = s"
    by (rule py_replace_absent [of "CHR '':''"]) (simp, rule nocolon)
  have "\<forall>x \<in> set s. x \<notin> set ''{}''"
    using plain chars by auto
  then have r3: "strip_chars ''{}'' s = s"
    by (rule strip_chars_absent)
  have keep: "filter (\<lambda>x. x \<noteq> CHR ''-'') h = h"
    using plain by (intro filter_True) blast
  have "filter (\<lambda>x. x \<noteq> CHR ''-'') s
        = filter (\<lambda>x. x \<noteq> CHR ''-'') a @ filter (\<lambda>x. x \<noteq> CHR ''-'') b
          @ filter (\<lambda>x. x \<noteq> CHR ''-'') c @ filter (\<lambda>x. x \<noteq> CHR ''-'') d
          @ filter (\<lambda>x. x \<noteq> CHR ''-'') e"
    by (subst eq) simp
  also have "\<dots> = filter (\<lambda>x. x \<noteq> CHR ''-'') h"
    by (simp add: h_def)
  finally have r4: "filter (\<lambda>x. x \<noteq> CHR ''-'') s = h"
    by (simp only: keep)
  from lenh have ne: "h \<noteq> []"
    by auto
  from hex_digits_bounds [OF hexh, of 0] obtain v
    where v: "hex_digits 0 h = Some v" and v0: "0 \<le> v" and v1: "v < 16 ^ length h"
    by auto
  have "(16::int) ^ 32 = 2 ^ 128"
    by simp
  with v1 lenh have v2: "v < 2 ^ 128"
    by simp
  from v ne have hv: "hex_int h = Some v"
    by (simp add: hex_int_def)
  have "uuid_UUID hex_int s = Inr v"
    unfolding uuid_UUID_def Let_def r1 r2 r3 r4
    using lenh hv v0 v2 by simp
  moreover have "is_unreserved CHR ''-''"
    by (simp add: is_unreserved_def)
  with plain chars have "\<forall>x \<in> set s. is_unreserved x"
    by auto
  then have "quote_plus s = s"
    by (rule quote_plus_unreserved)
  ultimately show ?thesis
    using nocolon by blast
qed

end
